theory Spec2Isabelle
  imports Complex_Main "HOL-Library.Product_Lexorder" "HOL-Library.Multiset"
begin

section \<open>Layout QA gates: a shallow embedding\<close>

text \<open>
  The gates live in \<^verbatim>\<open>new_pipeline/validate/verify-*.py\<close> and
  \<^verbatim>\<open>bookgen/src/validate/verify-no-heading-hyphenation.py\<close>.  Python floats are
  modelled as \<^typ>\<open>real\<close> (no rounding), Python integers as \<^typ>\<open>nat\<close> or
  \<^typ>\<open>int\<close>, and a Python \<^verbatim>\<open>str\<close> as the list of its Unicode code points.
\<close>

subsection \<open>Layout configuration and page geometry\<close>

text \<open>
  The five lengths every gate reads from the tokens file (in points), after
  \<^verbatim>\<open>parse_len_to_pt\<close> has applied the per-variable defaults.
\<close>

record layout_config =
  margin_top :: real
  margin_bottom :: real
  margin_inner :: real
  margin_outer :: real
  col_gap :: real

text \<open>
  The page geometry is computed inline, by the same assignments, in the page loop of every
  gate (\<^verbatim>\<open>verify-column-balance.py\<close> lines 164-184, \<^verbatim>\<open>verify-page-fill.py\<close>
  lines 168-178, \<^verbatim>\<open>verify-justify-gaps.py\<close> lines 122-139,
  \<^verbatim>\<open>verify-bullet-orphan-split.py\<close> lines 117-135).  Each local variable of that
  block is one definition here; \<open>page_no\<close> is the 1-based page number, \<open>w\<close> and \<open>h\<close> the
  page width and height.
\<close>

definition is_left_page :: "nat \<Rightarrow> bool" where
  "is_left_page page_no = (page_no mod 2 = 0)"

definition left_margin :: "layout_config \<Rightarrow> nat \<Rightarrow> real" where
  "left_margin cfg page_no = (if is_left_page page_no then margin_outer cfg else margin_inner cfg)"

definition right_margin :: "layout_config \<Rightarrow> nat \<Rightarrow> real" where
  "right_margin cfg page_no = (if is_left_page page_no then margin_inner cfg else margin_outer cfg)"

definition body_x0 :: "layout_config \<Rightarrow> nat \<Rightarrow> real" where
  "body_x0 cfg page_no = left_margin cfg page_no"

definition body_x1 :: "layout_config \<Rightarrow> nat \<Rightarrow> real \<Rightarrow> real" where
  "body_x1 cfg page_no w = max (body_x0 cfg page_no) (w - right_margin cfg page_no)"

definition body_y0 :: "layout_config \<Rightarrow> real" where
  "body_y0 cfg = margin_top cfg"

definition body_y1 :: "layout_config \<Rightarrow> real \<Rightarrow> real" where
  "body_y1 cfg h = max (body_y0 cfg) (h - margin_bottom cfg)"

definition body_w :: "layout_config \<Rightarrow> nat \<Rightarrow> real \<Rightarrow> real" where
  "body_w cfg page_no w = max 1 (body_x1 cfg page_no w - body_x0 cfg page_no)"

definition body_h :: "layout_config \<Rightarrow> real \<Rightarrow> real" where
  "body_h cfg h = max 1 (body_y1 cfg h - body_y0 cfg)"

definition gap :: "layout_config \<Rightarrow> nat \<Rightarrow> real \<Rightarrow> real" where
  "gap cfg page_no w = max 0 (min (col_gap cfg) (body_w cfg page_no w * 0.5))"

definition col_w :: "layout_config \<Rightarrow> nat \<Rightarrow> real \<Rightarrow> real" where
  "col_w cfg page_no w = max 1 ((body_w cfg page_no w - gap cfg page_no w) / 2)"

definition left_x0 :: "layout_config \<Rightarrow> nat \<Rightarrow> real" where
  "left_x0 cfg page_no = body_x0 cfg page_no"

definition left_x1 :: "layout_config \<Rightarrow> nat \<Rightarrow> real \<Rightarrow> real" where
  "left_x1 cfg page_no w = body_x0 cfg page_no + col_w cfg page_no w"

definition right_x0 :: "layout_config \<Rightarrow> nat \<Rightarrow> real \<Rightarrow> real" where
  "right_x0 cfg page_no w = body_x0 cfg page_no + col_w cfg page_no w + gap cfg page_no w"

definition right_x1 :: "layout_config \<Rightarrow> nat \<Rightarrow> real \<Rightarrow> real" where
  "right_x1 cfg page_no w = body_x1 cfg page_no w"

text \<open>
  The three rectangles of the specification's PageGeometry, as \<open>(x0, y0, x1, y1)\<close>, put
  together from the locals above: the body, and the two columns the gates test the
  horizontal centre of a block against (vertically every gate uses the body's span).
\<close>

type_synonym rect = "real \<times> real \<times> real \<times> real"

definition body_rect :: "layout_config \<Rightarrow> nat \<Rightarrow> real \<Rightarrow> real \<Rightarrow> rect" where
  "body_rect cfg page_no w h =
     (body_x0 cfg page_no, body_y0 cfg, body_x1 cfg page_no w, body_y1 cfg h)"

definition left_column_rect :: "layout_config \<Rightarrow> nat \<Rightarrow> real \<Rightarrow> real \<Rightarrow> rect" where
  "left_column_rect cfg page_no w h =
     (left_x0 cfg page_no, body_y0 cfg, left_x1 cfg page_no w, body_y1 cfg h)"

definition right_column_rect :: "layout_config \<Rightarrow> nat \<Rightarrow> real \<Rightarrow> real \<Rightarrow> rect" where
  "right_column_rect cfg page_no w h =
     (right_x0 cfg page_no w, body_y0 cfg, right_x1 cfg page_no w, body_y1 cfg h)"

text \<open>The configuration of the specification's Example A.\<close>

definition example_A_config :: layout_config where
  "example_A_config =
     \<lparr>margin_top = 40, margin_bottom = 40, margin_inner = 30, margin_outer = 45, col_gap = 20\<rparr>"

lemmas geometry_defs =
  is_left_page_def left_margin_def right_margin_def body_x0_def body_x1_def body_y0_def
  body_y1_def body_w_def body_h_def gap_def col_w_def left_x0_def left_x1_def right_x0_def
  right_x1_def

lemma body_h_ge_1: "1 \<le> body_h cfg h"
  by (simp add: body_h_def)

lemma col_w_ge_1: "1 \<le> col_w cfg page_no w"
  by (simp add: col_w_def)

subsection \<open>Strings and the extracted page content\<close>

text \<open>
  A Python \<^verbatim>\<open>str\<close> is a list of code points.  \<open>is_space\<close> is the set of code points
  for which \<^verbatim>\<open>str.isspace\<close> holds, which is what \<^verbatim>\<open>str.strip\<close> removes and what
  \<^verbatim>\<open>\s\<close> matches in a \<^verbatim>\<open>str\<close> pattern.
\<close>

type_synonym pystr = "nat list"

definition is_space :: "nat \<Rightarrow> bool" where
  "is_space c \<longleftrightarrow>
     (9 \<le> c \<and> c \<le> 13) \<or> (28 \<le> c \<and> c \<le> 32) \<or> c = 133 \<or> c = 160 \<or> c = 5760
     \<or> (8192 \<le> c \<and> c \<le> 8202) \<or> c = 8232 \<or> c = 8233 \<or> c = 8239 \<or> c = 8287
     \<or> c = 12288"

definition lstrip :: "pystr \<Rightarrow> pystr" where
  "lstrip s = dropWhile is_space s"

definition rstrip :: "pystr \<Rightarrow> pystr" where
  "rstrip s = rev (dropWhile is_space (rev s))"

definition strip :: "pystr \<Rightarrow> pystr" where
  "strip s = rstrip (lstrip s)"

text \<open>String literals of the source, as code points.\<close>

definition cp :: "char \<Rightarrow> nat" where
  "cp c = of_char c"

definition py :: "string \<Rightarrow> pystr" where
  "py s = map cp s"

text \<open>
  \<^verbatim>\<open>str.splitlines\<close>: the line boundaries are LF, VT, FF, CR (CR LF counting as one), FS,
  GS, RS, NEL, LS and PS; a boundary at the very end opens no further line.
\<close>

definition is_linebreak :: "nat \<Rightarrow> bool" where
  "is_linebreak c \<longleftrightarrow>
     (10 \<le> c \<and> c \<le> 13) \<or> (28 \<le> c \<and> c \<le> 30) \<or> c = 133 \<or> c = 8232 \<or> c = 8233"

fun splitlines_from :: "pystr \<Rightarrow> pystr \<Rightarrow> pystr list" where
  "splitlines_from cur [] = (if cur = [] then [] else [cur])"
| "splitlines_from cur [c] = (if is_linebreak c then [cur] else [cur @ [c]])"
| "splitlines_from cur (c # d # cs) =
     (if c = 13 \<and> d = 10 then cur # splitlines_from [] cs
      else if is_linebreak c then cur # splitlines_from [] (d # cs)
      else splitlines_from (cur @ [c]) (d # cs))"

definition splitlines :: "pystr \<Rightarrow> pystr list" where
  "splitlines s = splitlines_from [] s"

subsection \<open>Regular expressions (the fragment of \<^verbatim>\<open>re\<close> the gates use)\<close>

text \<open>
  Every pattern in the gates is a sequence of literals, single character classes, starred
  or plussed character classes (greedy or lazy), anchors and capture groups.  A pattern is
  the list of its items; matching is Python's backtracking search: a greedy repetition
  tries the longest run first, a lazy one the shortest, and the first way through wins.
  \<open>Bol\<close> is \<^verbatim>\<open>^\<close> and \<open>Eol\<close> is \<^verbatim>\<open>$\<close> without the MULTILINE flag (the patterns compiled
  with that flag contain no anchor).
\<close>

datatype rx_item =
    Lit nat
  | One "nat \<Rightarrow> bool"
  | Many "nat \<Rightarrow> bool"
  | Many1 "nat \<Rightarrow> bool"
  | Lazy "nat \<Rightarrow> bool"
  | Bol
  | Eol
  | GOpen
  | GClose

primrec first_some :: "('a \<Rightarrow> 'b option) \<Rightarrow> 'a list \<Rightarrow> 'b option" where
  "first_some f [] = None"
| "first_some f (x # xs) = (case f x of Some y \<Rightarrow> Some y | None \<Rightarrow> first_some f xs)"

text \<open>
  \<open>rx_at items pos rest opened groups\<close>: match \<open>items\<close> against \<open>rest\<close>, the part of the
  subject from offset \<open>pos\<close> on; \<open>opened\<close> holds what was left of the subject at each group
  opened and not yet closed, \<open>groups\<close> the text of the groups closed so far.  The result is
  what is left of the subject after the match, with the groups.
\<close>

primrec rx_at :: "rx_item list \<Rightarrow> nat \<Rightarrow> pystr \<Rightarrow> pystr list \<Rightarrow> pystr list \<Rightarrow> (pystr \<times> pystr list) option" where
  "rx_at [] pos rest opened groups = Some (rest, groups)"
| "rx_at (item # items) pos rest opened groups =
     (case item of
        Lit c \<Rightarrow>
          (case rest of [] \<Rightarrow> None
           | x # xs \<Rightarrow> if x = c then rx_at items (pos + 1) xs opened groups else None)
      | One p \<Rightarrow>
          (case rest of [] \<Rightarrow> None
           | x # xs \<Rightarrow> if p x then rx_at items (pos + 1) xs opened groups else None)
      | Many p \<Rightarrow>
          first_some (\<lambda>j. rx_at items (pos + j) (drop j rest) opened groups)
            (rev [0 ..< Suc (length (takeWhile p rest))])
      | Many1 p \<Rightarrow>
          first_some (\<lambda>j. rx_at items (pos + j) (drop j rest) opened groups)
            (rev [1 ..< Suc (length (takeWhile p rest))])
      | Lazy p \<Rightarrow>
          first_some (\<lambda>j. rx_at items (pos + j) (drop j rest) opened groups)
            [0 ..< Suc (length (takeWhile p rest))]
      | Bol \<Rightarrow> if pos = 0 then rx_at items pos rest opened groups else None
      | Eol \<Rightarrow> if rest = [] \<or> rest = [10] then rx_at items pos rest opened groups else None
      | GOpen \<Rightarrow> rx_at items pos rest (rest # opened) groups
      | GClose \<Rightarrow>
          (case opened of [] \<Rightarrow> None
           | start # opened' \<Rightarrow>
               rx_at items pos rest opened'
                 (groups @ [take (length start - length rest) start])))"

text \<open>\<^verbatim>\<open>re.match\<close> and \<^verbatim>\<open>re.search\<close>; the result is the list of groups.\<close>

definition re_match :: "rx_item list \<Rightarrow> pystr \<Rightarrow> pystr list option" where
  "re_match items s = map_option snd (rx_at items 0 s [] [])"

definition re_search :: "rx_item list \<Rightarrow> pystr \<Rightarrow> pystr list option" where
  "re_search items s =
     map_option snd (first_some (\<lambda>k. rx_at items k (drop k s) [] []) [0 ..< Suc (length s)])"

definition is_digit :: "nat \<Rightarrow> bool" where
  "is_digit c \<longleftrightarrow> 48 \<le> c \<and> c \<le> 57"

text \<open>
  What PyMuPDF hands to the gates for one page:
  \<^item> \<open>rect_width\<close>, \<open>rect_height\<close>: \<^verbatim>\<open>page.rect\<close>;
  \<^item> \<open>text_blocks\<close>: \<^verbatim>\<open>page.get_text("blocks")\<close>, each block \<open>(x0, y0, x1, y1, text)\<close>;
  \<^item> \<open>image_rects\<close>: for each image of \<^verbatim>\<open>page.get_images(full=True)\<close>, the list
    \<^verbatim>\<open>page.get_image_rects(xref)\<close>;
  \<^item> \<open>words\<close>: \<^verbatim>\<open>page.get_text("words")\<close>, each word
    \<open>(x0, y0, x1, y1, text, block_no, line_no)\<close>;
  \<^item> \<open>dict_blocks\<close>: the blocks of \<^verbatim>\<open>page.get_text("dict")\<close>, each a list of lines, a
    line being its bounding box and its spans \<open>(size, text)\<close>.
\<close>

type_synonym text_block = "real \<times> real \<times> real \<times> real \<times> pystr"
type_synonym word = "real \<times> real \<times> real \<times> real \<times> pystr \<times> int \<times> int"
type_synonym span = "real \<times> pystr"
type_synonym dict_line = "rect \<times> span list"

record pdf_page =
  rect_width :: real
  rect_height :: real
  text_blocks :: "text_block list"
  image_rects :: "rect list list"
  words :: "word list"
  dict_blocks :: "dict_line list list"

subsection \<open>Coverage engine (\<^verbatim>\<open>union_len\<close> in \<^verbatim>\<open>verify-column-balance.py\<close>)\<close>

text \<open>
  The loop of \<^verbatim>\<open>union_len\<close> over \<^verbatim>\<open>ints[1:]\<close>, with its three locals
  (\<open>tot\<close> is the source's \<^verbatim>\<open>total\<close>) and the addition after the loop.
\<close>

fun merge_pass :: "real \<Rightarrow> real \<Rightarrow> real \<Rightarrow> (real \<times> real) list \<Rightarrow> real" where
  "merge_pass tot cur_a cur_b [] = tot + (cur_b - cur_a)"
| "merge_pass tot cur_a cur_b ((a, b) # rest) =
     (if a \<le> cur_b then merge_pass tot cur_a (max cur_b b) rest
      else merge_pass (tot + (cur_b - cur_a)) a b rest)"

text \<open>Python sorts the pairs lexicographically, which is the order of \<open>Product_Lexorder\<close>.\<close>

definition union_len :: "(real \<times> real) list \<Rightarrow> real" where
  "union_len intervals =
     (let ints = filter (\<lambda>(a, b). b > a) intervals in
      if ints = [] then 0
      else (case sort ints of
              [] \<Rightarrow> 0
            | (cur_a, cur_b) # rest \<Rightarrow> merge_pass 0 cur_a cur_b rest))"

text \<open>
  \<^verbatim>\<open>cov = union_len(ivs) / body_h if body_h else 1.0; cov = max(0.0, min(1.0, cov))\<close>
\<close>

definition coverage :: "(real \<times> real) list \<Rightarrow> real \<Rightarrow> real" where
  "coverage intervals bh =
     max 0 (min 1 (if bh \<noteq> 0 then union_len intervals / bh else 1))"

text \<open>The merge pass started on the first interval of a sorted list.\<close>

definition merged_len :: "(real \<times> real) list \<Rightarrow> real" where
  "merged_len ys = (case ys of [] \<Rightarrow> 0 | (cur_a, cur_b) # rest \<Rightarrow> merge_pass 0 cur_a cur_b rest)"

subsection \<open>Column-Balance gate (\<^verbatim>\<open>verify-column-balance.py\<close>)\<close>



text \<open>
  The body of the loop over the text blocks (lines 193-221): the state is
  \<open>(left_blocks, right_blocks, left_intervals, right_intervals)\<close>.  PyMuPDF blocks always
  have at least five entries, so the guard \<^verbatim>\<open>len(b) < 5\<close> never fires.
\<close>

type_synonym tally = "nat \<times> nat \<times> (real \<times> real) list \<times> (real \<times> real) list"

definition tally_block :: "layout_config \<Rightarrow> nat \<Rightarrow> real \<Rightarrow> real \<Rightarrow> tally \<Rightarrow> text_block \<Rightarrow> tally" where
  "tally_block cfg page_no w h st blk =
     (case (st, blk) of ((left_blocks, right_blocks, left_intervals, right_intervals),
                         (x0, y0, x1, y1, text)) \<Rightarrow>
        let txt = strip text in
        if txt = [] then st
        else
          let bw = max 0 (x1 - x0); bh = max 0 (y1 - y0) in
          if bw * bh < 200 then st
          else if y1 \<le> body_y0 cfg \<or> y0 \<ge> body_y1 cfg h then st
          else if bw > col_w cfg page_no w * 1.10 then st
          else
            let xc = (x0 + x1) / 2 in
            if left_x0 cfg page_no \<le> xc \<and> xc \<le> left_x1 cfg page_no w then
              (left_blocks + 1, right_blocks,
               left_intervals @ [(max (body_y0 cfg) y0, min (body_y1 cfg h) y1)], right_intervals)
            else if right_x0 cfg page_no w \<le> xc \<and> xc \<le> right_x1 cfg page_no w then
              (left_blocks, right_blocks + 1,
               left_intervals, right_intervals @ [(max (body_y0 cfg) y0, min (body_y1 cfg h) y1)])
            else st)"

definition column_tally :: "layout_config \<Rightarrow> nat \<Rightarrow> pdf_page \<Rightarrow> tally" where
  "column_tally cfg page_no page =
     foldl (tally_block cfg page_no (rect_width page) (rect_height page)) (0, 0, [], [])
       (text_blocks page)"

definition left_blocks :: "layout_config \<Rightarrow> nat \<Rightarrow> pdf_page \<Rightarrow> nat" where
  "left_blocks cfg page_no page = (case column_tally cfg page_no page of (lb, rb, li, ri) \<Rightarrow> lb)"

definition right_blocks :: "layout_config \<Rightarrow> nat \<Rightarrow> pdf_page \<Rightarrow> nat" where
  "right_blocks cfg page_no page = (case column_tally cfg page_no page of (lb, rb, li, ri) \<Rightarrow> rb)"

definition left_intervals :: "layout_config \<Rightarrow> nat \<Rightarrow> pdf_page \<Rightarrow> (real \<times> real) list" where
  "left_intervals cfg page_no page = (case column_tally cfg page_no page of (lb, rb, li, ri) \<Rightarrow> li)"

definition right_intervals :: "layout_config \<Rightarrow> nat \<Rightarrow> pdf_page \<Rightarrow> (real \<times> real) list" where
  "right_intervals cfg page_no page = (case column_tally cfg page_no page of (lb, rb, li, ri) \<Rightarrow> ri)"



text \<open>
  The image loop (lines 245-260): the state is \<open>(left_has_image, right_has_image)\<close>; the
  outer loop stops as soon as both flags are set.
\<close>

definition image_rect_step :: "layout_config \<Rightarrow> nat \<Rightarrow> real \<Rightarrow> real \<Rightarrow> bool \<times> bool \<Rightarrow> rect \<Rightarrow> bool \<times> bool" where
  "image_rect_step cfg page_no w h st r =
     (case (st, r) of ((left_has_image, right_has_image), (x0, y0, x1, y1)) \<Rightarrow>
        if y1 \<le> body_y0 cfg \<or> y0 \<ge> body_y1 cfg h then st
        else
          (if x1 > left_x0 cfg page_no \<and> x0 < left_x1 cfg page_no w then True else left_has_image,
           if x1 > right_x0 cfg page_no w \<and> x0 < right_x1 cfg page_no w then True
           else right_has_image))"

fun image_loop :: "layout_config \<Rightarrow> nat \<Rightarrow> real \<Rightarrow> real \<Rightarrow> bool \<times> bool \<Rightarrow> rect list list \<Rightarrow> bool \<times> bool" where
  "image_loop cfg page_no w h st [] = st"
| "image_loop cfg page_no w h st (rects # imgs) =
     (let st' = foldl (image_rect_step cfg page_no w h) st rects in
      if fst st' \<and> snd st' then st' else image_loop cfg page_no w h st' imgs)"

definition left_has_image :: "layout_config \<Rightarrow> nat \<Rightarrow> pdf_page \<Rightarrow> bool" where
  "left_has_image cfg page_no page =
     fst (image_loop cfg page_no (rect_width page) (rect_height page) (False, False)
            (image_rects page))"

definition right_has_image :: "layout_config \<Rightarrow> nat \<Rightarrow> pdf_page \<Rightarrow> bool" where
  "right_has_image cfg page_no page =
     snd (image_loop cfg page_no (rect_width page) (rect_height page) (False, False)
            (image_rects page))"

text \<open>
  Python's \<^verbatim>\<open>round(x, n)\<close> on an exact value: to the nearest multiple of \<open>10^-n\<close>,
  ties to the even one.
\<close>

definition py_round :: "real \<Rightarrow> nat \<Rightarrow> real" where
  "py_round x n =
     (let y = x * 10 ^ n; f = \<lfloor>y\<rfloor>; d = y - of_int f in
      of_int (if d < 1 / 2 then f else if d > 1 / 2 then f + 1
              else if even f then f else f + 1) / 10 ^ n)"

datatype side = Left | Right








subsection \<open>The page loop and the ignored pages\<close>

text \<open>
  A document: its pages and \<^verbatim>\<open>doc.get_toc()\<close>, the bookmarks \<open>(level, title, page)\<close>.
\<close>

type_synonym toc_entry = "int \<times> pystr \<times> int"

record pdf_doc =
  pages :: "pdf_page list"
  toc :: "toc_entry list"

text \<open>\<^verbatim>\<open>^[0-9]+\.\<close>, matched against the stripped title of a bookmark.\<close>

definition numbered_title_rx :: "rx_item list" where
  "numbered_title_rx = [Bol, Many1 is_digit, Lit (cp CHR ''.'')]"

text \<open>
  The first loop over the bookmarks (\<^verbatim>\<open>--ignore-before-first-chapter\<close>): the page of the
  first level-1 bookmark whose title starts with a number and a dot.
\<close>

fun first_chapter_page :: "toc_entry list \<Rightarrow> int option" where
  "first_chapter_page [] = None"
| "first_chapter_page ((lvl, title, page) # rest) =
     (if lvl \<noteq> 1 then first_chapter_page rest
      else if re_match numbered_title_rx (strip title) \<noteq> None then Some page
      else first_chapter_page rest)"

text \<open>
  \<open>ignore_pages\<close> as the two blocks build it; the flags are those of the command line.
\<close>

definition ignore_pages :: "bool \<Rightarrow> bool \<Rightarrow> toc_entry list \<Rightarrow> int set" where
  "ignore_pages before_first_chapter before_level1 tc =
     (if before_first_chapter then
        (case first_chapter_page tc of
           None \<Rightarrow> {}
         | Some fcp \<Rightarrow> if fcp \<noteq> 0 \<and> fcp > 1 then int ` set [1 ..< nat fcp] else {})
      else {})
     \<union> (if before_level1 then
          set (map (\<lambda>(lvl, title, page). page - 1)
                 (filter (\<lambda>(lvl, title, page). lvl = 1 \<and> page > 1) tc))
        else {})"

text \<open>The three tests at the head of the page loop.\<close>

definition page_ignored :: "int \<Rightarrow> int \<Rightarrow> int set \<Rightarrow> nat \<Rightarrow> nat \<Rightarrow> bool" where
  "page_ignored ignore_first ignore_last ign total_pages page_no \<longleftrightarrow>
     int page_no \<le> ignore_first
     \<or> (ignore_last \<noteq> 0 \<and> int page_no > int total_pages - ignore_last)
     \<or> int page_no \<in> ign"

text \<open>
  \<^verbatim>\<open>for i in range(total_pages)\<close>: \<open>check\<close> is the rest of the loop body, giving the record
  appended to \<^verbatim>\<open>bad\<close> if any; \<open>i\<close> is the index of the first page of the list.
\<close>

fun page_loop :: "(nat \<Rightarrow> bool) \<Rightarrow> (nat \<Rightarrow> pdf_page \<Rightarrow> 'v option) \<Rightarrow> nat \<Rightarrow> pdf_page list \<Rightarrow> 'v list" where
  "page_loop ignored check i [] = []"
| "page_loop ignored check i (page # rest) =
     (let page_no = i + 1 in
      if ignored page_no then page_loop ignored check (i + 1) rest
      else (case check page_no page of
              None \<Rightarrow> page_loop ignored check (i + 1) rest
            | Some v \<Rightarrow> v # page_loop ignored check (i + 1) rest))"



subsection \<open>Page-Fill gate (\<^verbatim>\<open>verify-page-fill.py\<close>)\<close>

record pf_args =
  min_used :: real
  pf_ignore_first :: int
  pf_ignore_last :: int
  pf_ignore_before_level1 :: bool
  pf_ignore_before_first_chapter :: bool

definition pf_default_args :: pf_args where
  "pf_default_args =
     \<lparr>min_used = 0.60, pf_ignore_first = 2, pf_ignore_last = 0,
      pf_ignore_before_level1 = False, pf_ignore_before_first_chapter = False\<rparr>"

definition in_body :: "layout_config \<Rightarrow> nat \<Rightarrow> real \<Rightarrow> real \<Rightarrow> rect \<Rightarrow> bool" where
  "in_body cfg page_no w h r =
     (case r of (x0, y0, x1, y1) \<Rightarrow>
        if y1 \<le> body_y0 cfg \<or> y0 \<ge> body_y1 cfg h then False
        else (let xc = (x0 + x1) / 2 in body_x0 cfg page_no \<le> xc \<and> xc \<le> body_x1 cfg page_no w))"

text \<open>The body of the loop over the text blocks (lines 191-204), on \<^verbatim>\<open>y_max\<close>.\<close>

definition fill_block :: "layout_config \<Rightarrow> nat \<Rightarrow> real \<Rightarrow> real \<Rightarrow> real \<Rightarrow> text_block \<Rightarrow> real" where
  "fill_block cfg page_no w h y_max blk =
     (case blk of (x0, y0, x1, y1, text) \<Rightarrow>
        let txt = strip text in
        if txt = [] then y_max
        else
          let bw = max 0 (x1 - x0); bh = max 0 (y1 - y0) in
          if bw * bh < 200 then y_max
          else if \<not> in_body cfg page_no w h (x0, y0, x1, y1) then y_max
          else max y_max (min y1 (body_y1 cfg h)))"

text \<open>The body of the inner loop over the rectangles of an image (lines 209-213).\<close>

definition fill_image_rect :: "layout_config \<Rightarrow> nat \<Rightarrow> real \<Rightarrow> real \<Rightarrow> real \<Rightarrow> rect \<Rightarrow> real" where
  "fill_image_rect cfg page_no w h y_max r =
     (case r of (x0, y0, x1, y1) \<Rightarrow>
        if \<not> in_body cfg page_no w h (x0, y0, x1, y1) then y_max
        else max y_max (min y1 (body_y1 cfg h)))"

definition y_max :: "layout_config \<Rightarrow> nat \<Rightarrow> pdf_page \<Rightarrow> real" where
  "y_max cfg page_no page =
     (let w = rect_width page; h = rect_height page in
      foldl (\<lambda>y rects. foldl (fill_image_rect cfg page_no w h) y rects)
        (foldl (fill_block cfg page_no w h) (body_y0 cfg) (text_blocks page))
        (image_rects page))"

definition used_ratio :: "layout_config \<Rightarrow> nat \<Rightarrow> pdf_page \<Rightarrow> real" where
  "used_ratio cfg page_no page =
     (if body_h cfg (rect_height page) \<noteq> 0
      then (y_max cfg page_no page - body_y0 cfg) / body_h cfg (rect_height page)
      else 1)"

record pf_violation =
  pf_page :: nat
  pf_used_ratio :: real
  pf_y_max :: real
  pf_body_y0 :: real
  pf_body_y1 :: real

text \<open>One iteration of the page loop after the ignore tests (lines 161-226).\<close>

definition page_fill_page :: "pf_args \<Rightarrow> layout_config \<Rightarrow> nat \<Rightarrow> pdf_page \<Rightarrow> pf_violation option" where
  "page_fill_page args cfg page_no page =
     (if rect_width page \<le> 0 \<or> rect_height page \<le> 0 then None
      else if used_ratio cfg page_no page < min_used args
      then Some \<lparr>pf_page = page_no,
                 pf_used_ratio = py_round (used_ratio cfg page_no page) 3,
                 pf_y_max = py_round (y_max cfg page_no page) 1,
                 pf_body_y0 = py_round (body_y0 cfg) 1,
                 pf_body_y1 = py_round (body_y1 cfg (rect_height page)) 1\<rparr>
      else None)"

definition pf_page_ignored :: "pf_args \<Rightarrow> pdf_doc \<Rightarrow> nat \<Rightarrow> bool" where
  "pf_page_ignored args doc page_no =
     page_ignored (pf_ignore_first args) (pf_ignore_last args)
       (ignore_pages (pf_ignore_before_first_chapter args) (pf_ignore_before_level1 args) (toc doc))
       (length (pages doc)) page_no"

text \<open>The list \<^verbatim>\<open>bad\<close> of the Page-Fill gate after the loop.\<close>

definition page_fill_bad :: "pf_args \<Rightarrow> layout_config \<Rightarrow> pdf_doc \<Rightarrow> pf_violation list" where
  "page_fill_bad args cfg doc =
     page_loop (pf_page_ignored args doc) (page_fill_page args cfg) 0 (pages doc)"

subsection \<open>Bullet-Orphan-Split gate (\<^verbatim>\<open>verify-bullet-orphan-split.py\<close>)\<close>

text \<open>The text of a line: \<^verbatim>\<open>"".join([str(sp.get("text") or "") for sp in spans])\<close>.\<close>

definition spans_text :: "span list \<Rightarrow> pystr" where
  "spans_text spans = concat (map snd spans)"

text \<open>\<^verbatim>\<open>s.startswith("\<bullet>")\<close>, the bullet being U+2022.\<close>

definition startswith_bullet :: "pystr \<Rightarrow> bool" where
  "startswith_bullet s = (case s of [] \<Rightarrow> False | c # cs \<Rightarrow> c = 8226)"

text \<open>
  The body of the loop over the lines of a block (lines 144-163), on
  \<open>(left_ys, right_ys)\<close>.
\<close>

definition bullet_line :: "layout_config \<Rightarrow> nat \<Rightarrow> real \<Rightarrow> real \<Rightarrow> real list \<times> real list \<Rightarrow> dict_line \<Rightarrow> real list \<times> real list" where
  "bullet_line cfg page_no w h st line =
     (case (st, line) of ((left_ys, right_ys), ((x0, y0, x1, y1), spans)) \<Rightarrow>
        if y1 \<le> body_y0 cfg \<or> y0 \<ge> body_y1 cfg h then st
        else
          let txt = strip (spans_text spans) in
          if txt = [] then st
          else if \<not> startswith_bullet (lstrip txt) then st
          else
            let xc = (x0 + x1) / 2; yc = (y0 + y1) / 2 in
            if left_x0 cfg page_no \<le> xc \<and> xc \<le> left_x1 cfg page_no w then (left_ys @ [yc], right_ys)
            else if right_x0 cfg page_no w \<le> xc \<and> xc \<le> right_x1 cfg page_no w
            then (left_ys, right_ys @ [yc])
            else st)"

definition bullet_ys :: "layout_config \<Rightarrow> nat \<Rightarrow> pdf_page \<Rightarrow> real list \<times> real list" where
  "bullet_ys cfg page_no page =
     foldl (\<lambda>st lines. foldl (bullet_line cfg page_no (rect_width page) (rect_height page)) st lines)
       ([], []) (dict_blocks page)"

definition left_ys :: "layout_config \<Rightarrow> nat \<Rightarrow> pdf_page \<Rightarrow> real list" where
  "left_ys cfg page_no page = fst (bullet_ys cfg page_no page)"

definition right_ys :: "layout_config \<Rightarrow> nat \<Rightarrow> pdf_page \<Rightarrow> real list" where
  "right_ys cfg page_no page = snd (bullet_ys cfg page_no page)"

record bo_violation =
  bo_page :: nat
  bo_left_bullets :: nat
  bo_right_bullets :: nat
  bo_singleton_col :: side
  bo_singleton_bottom_ratio :: real
  bo_other_top_ratio :: real

text \<open>
  Lines 165-204, on the two lists of bullet positions; \<open>bh\<close> is \<^verbatim>\<open>body_h\<close> and \<open>by0\<close>,
  \<open>by1\<close> are \<^verbatim>\<open>body_y0\<close>, \<^verbatim>\<open>body_y1\<close>.  Python's \<^verbatim>\<open>max\<close> and \<^verbatim>\<open>min\<close> of a non-empty
  list are \<open>Max\<close> and \<open>Min\<close> of its set.
\<close>

definition orphan_decision :: "nat \<Rightarrow> real \<Rightarrow> real \<Rightarrow> real \<Rightarrow> real list \<Rightarrow> real list \<Rightarrow> bo_violation option" where
  "orphan_decision page_no by0 by1 bh lys rys =
     (let lc = length lys; rc = length rys in
      if lc = 0 \<or> rc = 0 then None
      else
        let small = min lc rc; big = max lc rc in
        if \<not> (small = 1 \<and> big \<ge> 3) then None
        else
          let left_max = (if lys \<noteq> [] then Max (set lys) else by0);
              right_min = (if rys \<noteq> [] then Min (set rys) else by1);
              left_max_r = (left_max - by0) / bh;
              right_min_r = (right_min - by0) / bh;
              singleton_bottom = (if lc = 1 then left_max_r else (Max (set rys) - by0) / bh);
              other_top = (if lc = 1 then right_min_r else (Min (set lys) - by0) / bh);
              singleton_col = (if lc = 1 then Left else Right)
          in
          if singleton_bottom \<ge> 0.65 \<and> other_top \<le> 0.40
          then Some \<lparr>bo_page = page_no, bo_left_bullets = lc, bo_right_bullets = rc,
                     bo_singleton_col = singleton_col,
                     bo_singleton_bottom_ratio = py_round singleton_bottom 3,
                     bo_other_top_ratio = py_round other_top 3\<rparr>
          else None)"

text \<open>One iteration of the page loop after the ignore tests (lines 110-204).\<close>

definition bullet_orphan_page :: "layout_config \<Rightarrow> nat \<Rightarrow> pdf_page \<Rightarrow> bo_violation option" where
  "bullet_orphan_page cfg page_no page =
     (if rect_width page \<le> 0 \<or> rect_height page \<le> 0 then None
      else orphan_decision page_no (body_y0 cfg) (body_y1 cfg (rect_height page))
             (body_h cfg (rect_height page)) (left_ys cfg page_no page) (right_ys cfg page_no page))"

record bo_args =
  bo_ignore_first :: int
  bo_ignore_last :: int

definition bo_default_args :: bo_args where
  "bo_default_args = \<lparr>bo_ignore_first = 0, bo_ignore_last = 0\<rparr>"

definition bo_page_ignored :: "bo_args \<Rightarrow> pdf_doc \<Rightarrow> nat \<Rightarrow> bool" where
  "bo_page_ignored args doc page_no =
     page_ignored (bo_ignore_first args) (bo_ignore_last args) {} (length (pages doc)) page_no"

definition bullet_orphan_bad :: "bo_args \<Rightarrow> layout_config \<Rightarrow> pdf_doc \<Rightarrow> bo_violation list" where
  "bullet_orphan_bad args cfg doc =
     page_loop (bo_page_ignored args doc) (bullet_orphan_page cfg) 0 (pages doc)"

text \<open>The normalised position of a bullet line: its centre as a fraction of the body.\<close>

definition norm_pos :: "layout_config \<Rightarrow> real \<Rightarrow> real \<Rightarrow> real" where
  "norm_pos cfg h yc = (yc - body_y0 cfg) / body_h cfg h"

subsection \<open>Justification-Gap gate (\<^verbatim>\<open>verify-justify-gaps.py\<close>)\<close>

record jg_args =
  max_gap_pt :: real
  min_span_ratio :: real
  jg_ignore_first :: int
  jg_ignore_last :: int

definition jg_default_args :: jg_args where
  "jg_default_args =
     \<lparr>max_gap_pt = 18, min_span_ratio = 0.85, jg_ignore_first = 2, jg_ignore_last = 1\<rparr>"

text \<open>A word as stored in \<^verbatim>\<open>lines_by_col\<close>: \<open>(x0, y0, x1, y1, t)\<close>.\<close>

type_synonym line_word = "real \<times> real \<times> real \<times> real \<times> pystr"

definition w_x0 :: "line_word \<Rightarrow> real" where
  "w_x0 r = (case r of (x0, y0, x1, y1, t) \<Rightarrow> x0)"

definition w_x1 :: "line_word \<Rightarrow> real" where
  "w_x1 r = (case r of (x0, y0, x1, y1, t) \<Rightarrow> x1)"

definition w_text :: "line_word \<Rightarrow> pystr" where
  "w_text r = (case r of (x0, y0, x1, y1, t) \<Rightarrow> t)"

text \<open>
  \<^verbatim>\<open>is_marker_token\<close>.  \<^verbatim>\<open>str.isdigit\<close> holds of a non-empty string of characters with
  the Unicode digit property; that property is the parameter \<open>digit\<close>.  The four markers
  are the bullet U+2022, the hyphen-minus, the en dash U+2013 and the em dash U+2014.
\<close>

definition is_marker_token :: "(nat \<Rightarrow> bool) \<Rightarrow> pystr \<Rightarrow> bool" where
  "is_marker_token digit t =
     (let tt = strip t in
      if tt = [8226] \<or> tt = [45] \<or> tt = [8211] \<or> tt = [8212] then True
      else if tt \<noteq> [] \<and> list_all digit tt then True
      else False)"

text \<open>
  \<^verbatim>\<open>m.setdefault(key, []).append(w)\<close> on a dictionary kept in insertion order.
\<close>

fun setdefault_append :: "'k \<Rightarrow> 'a \<Rightarrow> ('k \<times> 'a list) list \<Rightarrow> ('k \<times> 'a list) list" where
  "setdefault_append key x [] = [(key, [x])]"
| "setdefault_append key x ((k, xs) # m) =
     (if k = key then (k, xs @ [x]) # m else (k, xs) # setdefault_append key x m)"

type_synonym col_lines = "((int \<times> int) \<times> line_word list) list"

text \<open>The body of the loop over the words (lines 146-166), on the two columns' lines.\<close>

definition word_step :: "layout_config \<Rightarrow> nat \<Rightarrow> real \<Rightarrow> real \<Rightarrow> col_lines \<times> col_lines \<Rightarrow> word \<Rightarrow> col_lines \<times> col_lines" where
  "word_step cfg page_no w h st wd =
     (case (st, wd) of ((m0, m1), (x0, y0, x1, y1, txt, bno, lno)) \<Rightarrow>
        let t = strip txt in
        if t = [] then st
        else if y1 \<le> body_y0 cfg \<or> y0 \<ge> body_y1 cfg h then st
        else
          let xc = (x0 + x1) / 2 in
          if xc < body_x0 cfg page_no \<or> xc > body_x1 cfg page_no w then st
          else if left_x0 cfg page_no \<le> xc \<and> xc \<le> left_x1 cfg page_no w
          then (setdefault_append (bno, lno) (x0, y0, x1, y1, t) m0, m1)
          else if right_x0 cfg page_no w \<le> xc \<and> xc \<le> right_x1 cfg page_no w
          then (m0, setdefault_append (bno, lno) (x0, y0, x1, y1, t) m1)
          else st)"

definition lines_by_col :: "layout_config \<Rightarrow> nat \<Rightarrow> pdf_page \<Rightarrow> col_lines \<times> col_lines" where
  "lines_by_col cfg page_no page =
     foldl (word_step cfg page_no (rect_width page) (rect_height page)) ([], []) (words page)"

text \<open>
  Lines 172-177: the words of a line sorted by \<open>x0\<close> (Python's sort is stable, as
  \<open>sort_key\<close> is), the span of the line and its ratio to the column width.
\<close>

definition sorted_words :: "line_word list \<Rightarrow> line_word list" where
  "sorted_words ws = sort_key w_x0 ws"

definition line_span :: "line_word list \<Rightarrow> real" where
  "line_span ws =
     (let ws' = sorted_words ws in if ws' \<noteq> [] then w_x1 (last ws') - w_x0 (hd ws') else 0)"

definition span_ratio :: "layout_config \<Rightarrow> nat \<Rightarrow> real \<Rightarrow> line_word list \<Rightarrow> real" where
  "span_ratio cfg page_no w ws =
     (if col_w cfg page_no w \<noteq> 0 then line_span ws / col_w cfg page_no w else 0)"

text \<open>\<^verbatim>\<open>" ".join(tokens)\<close>\<close>

fun join_space :: "pystr list \<Rightarrow> pystr" where
  "join_space [] = []"
| "join_space [t] = t"
| "join_space (t # u # ts) = t @ [32] @ join_space (u # ts)"

record jg_violation =
  jg_page :: nat
  jg_col :: nat
  jg_max_gap_pt :: real
  jg_span_ratio :: real
  jg_line :: pystr

text \<open>The body of the loop over the lines of a column (lines 169-202).\<close>

definition check_line :: "jg_args \<Rightarrow> (nat \<Rightarrow> bool) \<Rightarrow> layout_config \<Rightarrow> nat \<Rightarrow> real \<Rightarrow> nat \<Rightarrow> (int \<times> int) \<times> line_word list \<Rightarrow> jg_violation option" where
  "check_line args digit cfg page_no w col entry =
     (case entry of (key, ws0) \<Rightarrow>
        if length ws0 < 2 then None
        else
          let ws = sorted_words ws0;
              tokens = map w_text ws
          in
          if span_ratio cfg page_no w ws0 < min_span_ratio args then None
          else
            let start_idx = (if tokens \<noteq> [] \<and> is_marker_token digit (hd tokens) then 1 else 0);
                gaps = filter (\<lambda>g. g > 0)
                         (map (\<lambda>j. w_x0 (ws ! (j + 1)) - w_x1 (ws ! j)) [start_idx ..< length ws - 1])
            in
            if gaps = [] then None
            else
              let max_gap = Max (set gaps) in
              if max_gap > max_gap_pt args
              then Some \<lparr>jg_page = page_no, jg_col = col, jg_max_gap_pt = py_round max_gap 1,
                         jg_span_ratio = py_round (span_ratio cfg page_no w ws0) 3,
                         jg_line = take 200 (join_space tokens)\<rparr>
              else None)"

text \<open>One iteration of the page loop after the ignore tests (lines 115-202).\<close>

definition justify_gaps_page :: "jg_args \<Rightarrow> (nat \<Rightarrow> bool) \<Rightarrow> layout_config \<Rightarrow> nat \<Rightarrow> pdf_page \<Rightarrow> jg_violation list" where
  "justify_gaps_page args digit cfg page_no page =
     (if rect_width page \<le> 0 \<or> rect_height page \<le> 0 then []
      else
        (case lines_by_col cfg page_no page of (m0, m1) \<Rightarrow>
           List.map_filter (check_line args digit cfg page_no (rect_width page) 0) m0
           @ List.map_filter (check_line args digit cfg page_no (rect_width page) 1) m1))"

definition jg_page_ignored :: "jg_args \<Rightarrow> pdf_doc \<Rightarrow> nat \<Rightarrow> bool" where
  "jg_page_ignored args doc page_no =
     page_ignored (jg_ignore_first args) (jg_ignore_last args) {} (length (pages doc)) page_no"

definition justify_gaps_bad :: "jg_args \<Rightarrow> (nat \<Rightarrow> bool) \<Rightarrow> layout_config \<Rightarrow> pdf_doc \<Rightarrow> jg_violation list" where
  "justify_gaps_bad args digit cfg doc =
     concat (page_loop (jg_page_ignored args doc)
               (\<lambda>page_no page. Some (justify_gaps_page args digit cfg page_no page)) 0 (pages doc))"

subsection \<open>Heading-Hyphenation gate (\<^verbatim>\<open>verify-no-heading-hyphenation.py\<close>)\<close>

text \<open>\<^verbatim>\<open>line_text_and_size\<close>: the joined text of the spans and their greatest size.\<close>

definition line_text_and_size :: "dict_line \<Rightarrow> pystr \<times> real" where
  "line_text_and_size line =
     (case line of (bbox, spans) \<Rightarrow>
        (concat (map snd spans), foldl (\<lambda>max_size sp. max max_size (fst sp)) 0 spans))"

text \<open>
  The character class of \<^verbatim>\<open>starts_letter\<close>: \<^verbatim>\<open>A-Z\<close>, \<^verbatim>\<open>a-z\<close> and the three ranges
  U+00C0 to U+00D6, U+00D8 to U+00F6 and U+00F8 to U+00FF, that is the letters of
  Latin-1 (the multiplication and division signs U+00D7 and U+00F7 are left out).
\<close>

definition is_letter :: "nat \<Rightarrow> bool" where
  "is_letter c \<longleftrightarrow>
     (65 \<le> c \<and> c \<le> 90) \<or> (97 \<le> c \<and> c \<le> 122) \<or> (192 \<le> c \<and> c \<le> 214)
     \<or> (216 \<le> c \<and> c \<le> 246) \<or> (248 \<le> c \<and> c \<le> 255)"

text \<open>
  \<^verbatim>\<open>starts_letter\<close> is \<^verbatim>\<open>^\s*\<close> followed by that class, \<^verbatim>\<open>ends_with_hyphen\<close> is
  \<^verbatim>\<open>-\s*$\<close>.
\<close>

definition starts_letter :: "rx_item list" where
  "starts_letter = [Bol, Many is_space, One is_letter]"

definition ends_with_hyphen :: "rx_item list" where
  "ends_with_hyphen = [Lit 45, Many is_space, Eol]"

record hh_violation =
  hh_page :: nat
  hh_line1 :: pystr
  hh_line2 :: pystr
  hh_size_pt :: real

text \<open>
  The body of the loop over \<^verbatim>\<open>i\<close> (lines 123-139), on the pair
  \<^verbatim>\<open>(lines[i], lines[i + 1])\<close>; \<open>page_no\<close> is \<^verbatim>\<open>page_idx + 1\<close>.
\<close>

definition check_pair :: "real \<Rightarrow> nat \<Rightarrow> dict_line \<times> dict_line \<Rightarrow> hh_violation option" where
  "check_pair threshold page_no pr =
     (case pr of (l1, l2) \<Rightarrow>
        (case (line_text_and_size l1, line_text_and_size l2) of ((t1, s1), (t2, s2)) \<Rightarrow>
           if s1 < threshold \<or> s2 < threshold then None
           else if re_search ends_with_hyphen t1 = None then None
           else if re_search starts_letter t2 = None then None
           else Some \<lparr>hh_page = page_no, hh_line1 = strip t1, hh_line2 = strip t2,
                      hh_size_pt = py_round (max s1 s2) 2\<rparr>))"

text \<open>
  The adjacent pairs of a block, in order; a block of fewer than two lines has none.
\<close>

definition adjacent_pairs :: "'a list \<Rightarrow> ('a \<times> 'a) list" where
  "adjacent_pairs lines = (if length lines < 2 then [] else zip lines (tl lines))"

definition heading_page :: "real \<Rightarrow> nat \<Rightarrow> pdf_page \<Rightarrow> hh_violation list" where
  "heading_page threshold page_no page =
     concat (map (\<lambda>lines. List.map_filter (check_pair threshold page_no) (adjacent_pairs lines))
               (dict_blocks page))"

text \<open>
  \<^verbatim>\<open>threshold = float(body_pt) + float(args.delta_pt)\<close>, with \<open>body_pt\<close> read from the
  variable \<^verbatim>\<open>--body-size\<close> of the tokens file (10 if absent).
\<close>

definition heading_threshold :: "real \<Rightarrow> real \<Rightarrow> real" where
  "heading_threshold body_pt delta_pt = body_pt + delta_pt"

definition heading_bad :: "real \<Rightarrow> real \<Rightarrow> pdf_doc \<Rightarrow> hh_violation list" where
  "heading_bad body_pt delta_pt doc =
     concat (page_loop (\<lambda>page_no. False)
               (\<lambda>page_no page. Some (heading_page (heading_threshold body_pt delta_pt) page_no page))
               0 (pages doc))"




text \<open>
  A page whose only content is a running header above the body, a speck below the noise
  threshold, a block of blanks and an image in the bottom margin; and a document of three
  such pages.
\<close>

definition example_empty_page :: pdf_page where
  "example_empty_page =
     \<lparr>rect_width = 600, rect_height = 800,
      text_blocks =
        [(40, 10, 240, 30, py ''Running header''), (40, 100, 45, 110, py ''.''),
         (40, 200, 240, 300, py ''   '')],
      image_rects = [[(40, 770, 240, 790)], []], words = [], dict_blocks = []\<rparr>"

definition example_empty_doc :: pdf_doc where
  "example_empty_doc =
     \<lparr>pages = [example_empty_page, example_empty_page, example_empty_page], toc = []\<rparr>"

text \<open>
  A page in the shape of the specification's Example D: one bullet line at 0.80 of the left
  column, four bullet lines in the right column, the first at 0.10.
\<close>

definition example_D_page :: pdf_page where
  "example_D_page =
     \<lparr>rect_width = 600, rect_height = 800, text_blocks = [], image_rects = [], words = [],
      dict_blocks =
        [[((40, 580, 240, 592), [(10, py ''Some text'')]),
          ((40, 610, 240, 622), [(10, [8226, 32]), (10, py ''last item'')])],
         [((310, 106, 510, 118), [(10, [32, 8226, 32, 97])]),
          ((310, 126, 510, 138), [(10, [8226, 32, 98])]),
          ((310, 146, 510, 158), [(10, [8226, 32, 99])]),
          ((310, 166, 510, 178), [(10, [8226, 32, 100])])]]\<rparr>"

definition example_D_doc :: pdf_doc where
  "example_D_doc = \<lparr>pages = [example_D_page], toc = []\<rparr>"

text \<open>
  A page with two lines in the left column (252.5 wide): one spanning 240 with a gap of
  140 between its two words, one spanning 160 with a gap of 100; and a document of four
  such pages.
\<close>

definition example_gap_page :: pdf_page where
  "example_gap_page =
     \<lparr>rect_width = 600, rect_height = 800, text_blocks = [], image_rects = [],
      words =
        [(30, 100, 60, 112, py ''Een'', 0, 0), (200, 100, 270, 112, py ''regel'', 0, 0),
         (30, 120, 60, 132, py ''kort'', 0, 1), (160, 120, 190, 132, py ''eind'', 0, 1)],
      dict_blocks = []\<rparr>"

definition example_gap_doc :: pdf_doc where
  "example_gap_doc = \<lparr>pages = [example_gap_page, example_gap_page, example_gap_page, example_gap_page], toc = []\<rparr>"

definition example_short_line :: "line_word list" where
  "example_short_line = [(30, 120, 60, 132, py ''kort''), (160, 120, 190, 132, py ''eind'')]"

definition example_long_line :: "line_word list" where
  "example_long_line = [(30, 100, 60, 112, py ''Een''), (200, 100, 270, 112, py ''regel'')]"

subsection \<open>The token file parsers (\<^verbatim>\<open>parse_css_vars\<close>)\<close>

text \<open>
  A \<^verbatim>\<open>dict\<close> as the list of its items in insertion order; \<^verbatim>\<open>out[key] = value\<close> replaces
  the value of a key already there and appends a new key.
\<close>

fun dict_setitem :: "'k \<Rightarrow> 'v \<Rightarrow> ('k \<times> 'v) list \<Rightarrow> ('k \<times> 'v) list" where
  "dict_setitem key v [] = [(key, v)]"
| "dict_setitem key v ((k, x) # m) =
     (if k = key then (k, v) # m else (k, x) # dict_setitem key v m)"

text \<open>The class \<^verbatim>\<open>[a-zA-Z0-9_-]\<close>.\<close>

definition is_name_char :: "nat \<Rightarrow> bool" where
  "is_name_char c \<longleftrightarrow>
     (97 \<le> c \<and> c \<le> 122) \<or> (65 \<le> c \<and> c \<le> 90) \<or> (48 \<le> c \<and> c \<le> 57) \<or> c = 95 \<or> c = 45"

text \<open>
  \<^verbatim>\<open>verify-page-fill.py\<close> (and \<^verbatim>\<open>verify-column-balance.py\<close>, \<^verbatim>\<open>verify-bullet-orphan-split.py\<close>):
  the patterns \<^verbatim>\<open>r":root\s*\{([\s\S]*?)\}"\<close> and
  \<^verbatim>\<open>r"\s*(--[a-zA-Z0-9_-]+)\s*:\s*([^;]+);"\<close>.
\<close>

definition pf_root_rx :: "rx_item list" where
  "pf_root_rx =
     map Lit (py '':root'') @
     [Many is_space, Lit (cp CHR ''{''), GOpen, Lazy (\<lambda>c. is_space c \<or> \<not> is_space c), GClose,
      Lit (cp CHR ''}'')]"

definition pf_decl_rx :: "rx_item list" where
  "pf_decl_rx =
     [Many is_space, GOpen, Lit 45, Lit 45, Many1 is_name_char, GClose, Many is_space,
      Lit (cp CHR '':''), Many is_space, GOpen, Many1 (\<lambda>c. c \<noteq> cp CHR '';''), GClose,
      Lit (cp CHR '';'')]"

text \<open>
  \<^verbatim>\<open>verify-justify-gaps.py\<close> (and \<^verbatim>\<open>verify-box-justify-gaps.py\<close>): the patterns are the raw
  strings \<^verbatim>\<open>r":root\\s*\\{([\\s\\S]*?)\\}"\<close> and
  \<^verbatim>\<open>r"\\s*(--[a-zA-Z0-9_-]+)\\s*:\\s*([^;]+);"\<close>.  In a raw string \<^verbatim>\<open>\\\<close> is two
  characters, which \<^verbatim>\<open>re\<close> reads as one escaped backslash: \<^verbatim>\<open>\\s*\<close> is a backslash
  followed by any number of \<^verbatim>\<open>s\<close>, \<^verbatim>\<open>\\{\<close> a backslash and a brace, and the class
  \<^verbatim>\<open>[\\s\\S]\<close> holds the backslash, \<^verbatim>\<open>s\<close> and \<^verbatim>\<open>S\<close>.
\<close>

definition jg_root_rx :: "rx_item list" where
  "jg_root_rx =
     map Lit (py '':root'') @
     [Lit 92, Many (\<lambda>c. c = cp CHR ''s''), Lit 92, Lit (cp CHR ''{''), GOpen,
      Lazy (\<lambda>c. c = 92 \<or> c = cp CHR ''s'' \<or> c = cp CHR ''S''), GClose,
      Lit 92, Lit (cp CHR ''}'')]"

definition jg_decl_rx :: "rx_item list" where
  "jg_decl_rx =
     [Lit 92, Many (\<lambda>c. c = cp CHR ''s''), GOpen, Lit 45, Lit 45, Many1 is_name_char, GClose,
      Lit 92, Many (\<lambda>c. c = cp CHR ''s''), Lit (cp CHR '':''),
      Lit 92, Many (\<lambda>c. c = cp CHR ''s''), GOpen, Many1 (\<lambda>c. c \<noteq> cp CHR '';''), GClose,
      Lit (cp CHR '';'')]"

text \<open>
  The body of the loop over \<^verbatim>\<open>inner.splitlines()\<close>, and the function: the same statements
  in both files, around the two patterns.  The file is \<open>None\<close> when the path does not
  exist, and its decoded text otherwise.
\<close>

definition decl_step :: "rx_item list \<Rightarrow> (pystr \<times> pystr) list \<Rightarrow> pystr \<Rightarrow> (pystr \<times> pystr) list" where
  "decl_step decl_rx out line =
     (case re_match decl_rx line of
        None \<Rightarrow> out
      | Some groups \<Rightarrow> dict_setitem (strip (groups ! 0)) (strip (groups ! 1)) out)"

definition parse_css_vars_with :: "rx_item list \<Rightarrow> rx_item list \<Rightarrow> pystr option \<Rightarrow> (pystr \<times> pystr) list" where
  "parse_css_vars_with root_rx decl_rx tokens_css =
     (case tokens_css of
        None \<Rightarrow> []
      | Some css \<Rightarrow>
          (case re_search root_rx css of
             None \<Rightarrow> []
           | Some groups \<Rightarrow> foldl (decl_step decl_rx) [] (splitlines (groups ! 0))))"

definition pf_parse_css_vars :: "pystr option \<Rightarrow> (pystr \<times> pystr) list" where
  "pf_parse_css_vars = parse_css_vars_with pf_root_rx pf_decl_rx"

definition jg_parse_css_vars :: "pystr option \<Rightarrow> (pystr \<times> pystr) list" where
  "jg_parse_css_vars = parse_css_vars_with jg_root_rx jg_decl_rx"

text \<open>A token file of one well-formed block.\<close>

definition example_tokens_css :: pystr where
  "example_tokens_css = py '':root { --margin-top: 20mm; }''"

text \<open>
  Two heading-sized lines (14pt) of one block: \<^verbatim>\<open>"Naslagw- "\<close> and \<^verbatim>\<open>" erken 1"\<close>.
\<close>

definition example_heading_l1 :: dict_line where
  "example_heading_l1 = ((30, 100, 290, 120), [(14, py ''Naslagw''), (14, py ''- '')])"

definition example_heading_l2 :: dict_line where
  "example_heading_l2 = ((30, 122, 290, 142), [(14, py '' erken''), (9, py '' 1'')])"

definition example_heading_doc :: pdf_doc where
  "example_heading_doc =
     \<lparr>pages = [\<lparr>rect_width = 600, rect_height = 800, text_blocks = [], image_rects = [],
                 words = [], dict_blocks = [[example_heading_l1, example_heading_l2]]\<rparr>],
      toc = []\<rparr>"

text \<open>
  Two pairs of heading-sized lines: \<^verbatim>\<open>"Hors-"\<close> followed by a line that begins with the
  ligature U+0153 (\<^verbatim>\<open>oe\<close> in one letter) of the French word for the works of an author, and
  \<^verbatim>\<open>"Hors"\<close> ended by the hyphen U+2010 followed by \<^verbatim>\<open>"oeuvre"\<close>.
\<close>

definition example_oe_l1 :: dict_line where
  "example_oe_l1 = ((30, 100, 290, 120), [(14, py ''Hors-'')])"

definition example_oe_l2 :: dict_line where
  "example_oe_l2 = ((30, 122, 290, 142), [(14, 339 # py ''uvre'')])"

definition example_hy_l1 :: dict_line where
  "example_hy_l1 = ((30, 100, 290, 120), [(14, py ''Hors'' @ [8208])])"

definition example_hy_l2 :: dict_line where
  "example_hy_l2 = ((30, 122, 290, 142), [(14, py ''oeuvre'')])"

subsection \<open>The exits at the head of \<^verbatim>\<open>main\<close>\<close>

text \<open>
  What a run that stops in \<^verbatim>\<open>die\<close> leaves behind: the exit code and the message written
  to the error stream, kept as what it reports (\<^verbatim>\<open>PDF not found: ...\<close>,
  \<^verbatim>\<open>Missing dependency PyMuPDF (fitz): ...\<close>).
\<close>

datatype message = PdfNotFound | MissingDependency

record outcome =
  exit_code :: int
  stderr :: "message list"

text \<open>
  \<^verbatim>\<open>def die(msg, code=...)\<close>: print \<open>msg\<close> to the error stream, then
  \<^verbatim>\<open>raise SystemExit(code)\<close>; \<open>code\<close> is \<open>None\<close> when the caller passes none and the default
  of the file applies.  Each file has its own \<^verbatim>\<open>die\<close>, the default being 1 in
  \<^verbatim>\<open>verify-page-fill.py\<close>, \<^verbatim>\<open>verify-column-balance.py\<close> and \<^verbatim>\<open>verify-box-justify-gaps.py\<close>
  and 2 in \<^verbatim>\<open>verify-justify-gaps.py\<close>, \<^verbatim>\<open>verify-bullet-orphan-split.py\<close> and
  \<^verbatim>\<open>verify-no-heading-hyphenation.py\<close>.
\<close>

definition die :: "int \<Rightarrow> message \<Rightarrow> int option \<Rightarrow> outcome" where
  "die default_code msg code =
     \<lparr>exit_code = (case code of None \<Rightarrow> default_code | Some c \<Rightarrow> c), stderr = [msg]\<rparr>"

definition pf_die :: "message \<Rightarrow> int option \<Rightarrow> outcome" where
  "pf_die = die 1"

definition cb_die :: "message \<Rightarrow> int option \<Rightarrow> outcome" where
  "cb_die = die 1"

definition bj_die :: "message \<Rightarrow> int option \<Rightarrow> outcome" where
  "bj_die = die 1"

definition jg_die :: "message \<Rightarrow> int option \<Rightarrow> outcome" where
  "jg_die = die 2"

definition bo_die :: "message \<Rightarrow> int option \<Rightarrow> outcome" where
  "bo_die = die 2"

definition hh_die :: "message \<Rightarrow> int option \<Rightarrow> outcome" where
  "hh_die = die 2"

text \<open>
  What a run finds outside the program: whether the path of the PDF exists and whether
  \<^verbatim>\<open>import fitz\<close> succeeds.
\<close>

record run_env =
  pdf_exists :: bool
  fitz_importable :: bool

text \<open>
  The first statements of \<^verbatim>\<open>main\<close> after \<^verbatim>\<open>ap.parse_args()\<close> has returned, the same in the
  six files around the file's own \<^verbatim>\<open>die\<close>, which is called without a code
  (\<^verbatim>\<open>verify-page-fill.py\<close> lines 58-65, \<^verbatim>\<open>verify-column-balance.py\<close> lines 57-64,
  \<^verbatim>\<open>verify-justify-gaps.py\<close> lines 78-85, \<^verbatim>\<open>verify-bullet-orphan-split.py\<close> lines 82-89,
  \<^verbatim>\<open>verify-no-heading-hyphenation.py\<close> lines 92-99, \<^verbatim>\<open>verify-box-justify-gaps.py\<close> lines
  109-116).  The result is the outcome of the run when it ends in one of the two calls
  of \<^verbatim>\<open>die\<close>, and \<open>None\<close> when \<^verbatim>\<open>main\<close> goes on to read the token file and the document.
\<close>

definition main_head :: "(message \<Rightarrow> int option \<Rightarrow> outcome) \<Rightarrow> run_env \<Rightarrow> outcome option" where
  "main_head file_die env =
     (if \<not> pdf_exists env then Some (file_die PdfNotFound None)
      else if \<not> fitz_importable env then Some (file_die MissingDependency None)
      else None)"

definition page_fill_main_head :: "run_env \<Rightarrow> outcome option" where
  "page_fill_main_head = main_head pf_die"

definition column_balance_main_head :: "run_env \<Rightarrow> outcome option" where
  "column_balance_main_head = main_head cb_die"

definition box_justify_gaps_main_head :: "run_env \<Rightarrow> outcome option" where
  "box_justify_gaps_main_head = main_head bj_die"

definition justify_gaps_main_head :: "run_env \<Rightarrow> outcome option" where
  "justify_gaps_main_head = main_head jg_die"

definition bullet_orphan_main_head :: "run_env \<Rightarrow> outcome option" where
  "bullet_orphan_main_head = main_head bo_die"

definition heading_main_head :: "run_env \<Rightarrow> outcome option" where
  "heading_main_head = main_head hh_die"

text \<open>A run on a path that does not exist, and a run without PyMuPDF.\<close>

definition example_no_pdf :: run_env where
  "example_no_pdf = \<lparr>pdf_exists = False, fitz_importable = True\<rparr>"

definition example_no_fitz :: run_env where
  "example_no_fitz = \<lparr>pdf_exists = True, fitz_importable = False\<rparr>"

section \<open>Page geometry: the claims\<close>

text \<open>
  C1, as stated, fails: on page 3 (odd, a right page) the right margin is the outer one,
  45pt, so the body ends at 600 - 45 = 555, not at 570.
\<close>

theorem C1_example_A_counterexample:
  "body_rect example_A_config 3 600 800 \<noteq> (30, 40, 570, 760)"
  by (simp add: body_rect_def example_A_config_def geometry_defs)

text \<open>
  C1 (amended): for the page of Example A (600 by 800, margins top = bottom = 40,
  inner = 30, outer = 45, column gap 20, page 3) the body is [30, 40, 555, 760], the
  column width is (525 - 20) / 2 = 252.5, the left column is [30, 40, 282.5, 760] and the
  right column is [302.5, 40, 555, 760].
\<close>

theorem C1_example_A_geometry:
  "\<not> is_left_page 3
   \<and> body_rect example_A_config 3 600 800 = (30, 40, 555, 760)
   \<and> col_w example_A_config 3 600 = (525 - 20) / 2
   \<and> col_w example_A_config 3 600 = 252.5
   \<and> left_column_rect example_A_config 3 600 800 = (30, 40, 282.5, 760)
   \<and> right_column_rect example_A_config 3 600 800 = (302.5, 40, 555, 760)"
  by (simp add: body_rect_def left_column_rect_def right_column_rect_def
      example_A_config_def geometry_defs)

text \<open>
  C2: for every page number and every configuration, the page is a left page exactly when
  its number is even; a left page has the outer margin on the left and the inner margin
  on the right, a right (odd) page the inner margin on the left and the outer on the right.
  These are the margins the geometry uses: the body starts at the left margin and ends
  at the page width less the right margin (never before its start), the left column
  starts where the body starts and the right column ends where the body ends.
\<close>

theorem C2_margin_mirroring:
  "(is_left_page n \<longleftrightarrow> even n)
   \<and> (even n \<longrightarrow> left_margin cfg n = margin_outer cfg \<and> right_margin cfg n = margin_inner cfg)
   \<and> (odd n \<longrightarrow> left_margin cfg n = margin_inner cfg \<and> right_margin cfg n = margin_outer cfg)
   \<and> body_x0 cfg n = left_margin cfg n
   \<and> body_x1 cfg n w = max (left_margin cfg n) (w - right_margin cfg n)
   \<and> (even n \<longrightarrow>
        body_x0 cfg n = margin_outer cfg
        \<and> body_x1 cfg n w = max (margin_outer cfg) (w - margin_inner cfg)
        \<and> left_x0 cfg n = margin_outer cfg
        \<and> right_x1 cfg n w = max (margin_outer cfg) (w - margin_inner cfg)
        \<and> (margin_outer cfg + margin_inner cfg \<le> w \<longrightarrow>
             body_rect cfg n w h
               = (margin_outer cfg, margin_top cfg, w - margin_inner cfg,
                  max (margin_top cfg) (h - margin_bottom cfg))))
   \<and> (odd n \<longrightarrow>
        body_x0 cfg n = margin_inner cfg
        \<and> body_x1 cfg n w = max (margin_inner cfg) (w - margin_outer cfg)
        \<and> left_x0 cfg n = margin_inner cfg
        \<and> right_x1 cfg n w = max (margin_inner cfg) (w - margin_outer cfg)
        \<and> (margin_outer cfg + margin_inner cfg \<le> w \<longrightarrow>
             body_rect cfg n w h
               = (margin_inner cfg, margin_top cfg, w - margin_outer cfg,
                  max (margin_top cfg) (h - margin_bottom cfg))))"
proof -
  have lp: "is_left_page n \<longleftrightarrow> even n"
    by (auto simp add: is_left_page_def)
  have ev: "even n \<longrightarrow> left_margin cfg n = margin_outer cfg \<and> right_margin cfg n = margin_inner cfg"
    by (simp add: left_margin_def right_margin_def lp)
  have od: "odd n \<longrightarrow> left_margin cfg n = margin_inner cfg \<and> right_margin cfg n = margin_outer cfg"
    by (simp add: left_margin_def right_margin_def lp)
  have x0: "body_x0 cfg n = left_margin cfg n"
    by (simp add: body_x0_def)
  have x1: "body_x1 cfg n w = max (left_margin cfg n) (w - right_margin cfg n)"
    by (simp add: body_x1_def body_x0_def)
  have evg: "even n \<longrightarrow>
        body_x0 cfg n = margin_outer cfg
        \<and> body_x1 cfg n w = max (margin_outer cfg) (w - margin_inner cfg)
        \<and> left_x0 cfg n = margin_outer cfg
        \<and> right_x1 cfg n w = max (margin_outer cfg) (w - margin_inner cfg)
        \<and> (margin_outer cfg + margin_inner cfg \<le> w \<longrightarrow>
             body_rect cfg n w h
               = (margin_outer cfg, margin_top cfg, w - margin_inner cfg,
                  max (margin_top cfg) (h - margin_bottom cfg)))"
    using ev by (simp add: body_rect_def left_x0_def right_x1_def x0 x1 body_y0_def body_y1_def)
  have odg: "odd n \<longrightarrow>
        body_x0 cfg n = margin_inner cfg
        \<and> body_x1 cfg n w = max (margin_inner cfg) (w - margin_outer cfg)
        \<and> left_x0 cfg n = margin_inner cfg
        \<and> right_x1 cfg n w = max (margin_inner cfg) (w - margin_outer cfg)
        \<and> (margin_outer cfg + margin_inner cfg \<le> w \<longrightarrow>
             body_rect cfg n w h
               = (margin_inner cfg, margin_top cfg, w - margin_outer cfg,
                  max (margin_top cfg) (h - margin_bottom cfg)))"
    using od by (simp add: body_rect_def left_x0_def right_x1_def x0 x1 body_y0_def body_y1_def)
  show ?thesis
    apply (intro conjI)
          apply (rule lp)
         apply (rule ev)
        apply (rule od)
       apply (rule x0)
      apply (rule x1)
     apply (rule evg)
    apply (rule odg)
    done
qed

text \<open>
  Pages 4 and 3 of the specification's Example A (600 by 800): the body of the even page
  is \<open>[45, 40, 570, 760]\<close>, that of the odd page \<open>[30, 40, 555, 760]\<close>.
\<close>

theorem C2_margin_mirroring_witness:
  "(is_left_page 4 \<longleftrightarrow> even (4::nat))
   \<and> even (4::nat)
   \<and> left_margin example_A_config 4 = 45 \<and> right_margin example_A_config 4 = 30
   \<and> odd (3::nat)
   \<and> left_margin example_A_config 3 = 30 \<and> right_margin example_A_config 3 = 45
   \<and> margin_outer example_A_config + margin_inner example_A_config \<le> 600
   \<and> body_x0 example_A_config 4 = 45 \<and> body_x1 example_A_config 4 600 = 570
   \<and> body_rect example_A_config 4 600 800 = (45, 40, 570, 760)
   \<and> body_x0 example_A_config 3 = 30 \<and> body_x1 example_A_config 3 600 = 555
   \<and> body_rect example_A_config 3 600 800 = (30, 40, 555, 760)"
  using C2_margin_mirroring [of 4 example_A_config 600 800]
    C2_margin_mirroring [of 3 example_A_config 600 800]
  by (simp add: example_A_config_def)

section \<open>The page loop\<close>

text \<open>What ends up in \<^verbatim>\<open>bad\<close>: the records of the pages not ignored, in page order.\<close>

lemma page_loop_mem:
  "v \<in> set (page_loop ignored check i ps) \<longleftrightarrow>
     (\<exists>k < length ps. \<not> ignored (i + k + 1) \<and> check (i + k + 1) (ps ! k) = Some v)"
proof (induction ps arbitrary: i)
  case Nil
  then show ?case by simp
next
  case (Cons p ps)
  have shift: "(\<exists>k < length (p # ps). \<not> ignored (i + k + 1) \<and> check (i + k + 1) ((p # ps) ! k) = Some v)
     \<longleftrightarrow> (\<not> ignored (i + 1) \<and> check (i + 1) p = Some v)
          \<or> (\<exists>k < length ps. \<not> ignored (i + 1 + k + 1) \<and> check (i + 1 + k + 1) (ps ! k) = Some v)"
    (is "?L \<longleftrightarrow> ?A \<or> ?B")
  proof
    assume ?L
    then obtain k where k: "k < length (p # ps)" "\<not> ignored (i + k + 1)"
      "check (i + k + 1) ((p # ps) ! k) = Some v" by blast
    show "?A \<or> ?B"
    proof (cases k)
      case 0
      then show ?thesis using k by simp
    next
      case (Suc j)
      then have "j < length ps \<and> \<not> ignored (i + 1 + j + 1) \<and> check (i + 1 + j + 1) (ps ! j) = Some v"
        using k by simp
      then show ?thesis by blast
    qed
  next
    assume "?A \<or> ?B"
    then show ?L
    proof
      assume ?A
      then have "0 < length (p # ps) \<and> \<not> ignored (i + 0 + 1) \<and> check (i + 0 + 1) ((p # ps) ! 0) = Some v"
        by simp
      then show ?L by blast
    next
      assume ?B
      then obtain j where "j < length ps" "\<not> ignored (i + 1 + j + 1)"
        "check (i + 1 + j + 1) (ps ! j) = Some v" by blast
      then have "Suc j < length (p # ps) \<and> \<not> ignored (i + Suc j + 1)
          \<and> check (i + Suc j + 1) ((p # ps) ! Suc j) = Some v" by simp
      then show ?L by blast
    qed
  qed
  show ?case
    unfolding shift using Cons.IH [of "i + 1"]
    by (auto simp add: Let_def split: option.splits)
qed

lemma page_loop_page:
  assumes tag: "\<And>m p v. check m p = Some v \<Longrightarrow> pg v = m"
  shows "(\<exists>v \<in> set (page_loop ignored check 0 ps). pg v = n) \<longleftrightarrow>
           1 \<le> n \<and> n \<le> length ps \<and> \<not> ignored n \<and> check n (ps ! (n - 1)) \<noteq> None"
proof
  assume "\<exists>v \<in> set (page_loop ignored check 0 ps). pg v = n"
  then obtain v where vin: "v \<in> set (page_loop ignored check 0 ps)" and n: "pg v = n"
    by blast
  from vin obtain k where k: "k < length ps" "\<not> ignored (0 + k + 1)"
    "check (0 + k + 1) (ps ! k) = Some v"
    unfolding page_loop_mem by blast
  have "n = k + 1" using tag [OF k(3)] n by simp
  then show "1 \<le> n \<and> n \<le> length ps \<and> \<not> ignored n \<and> check n (ps ! (n - 1)) \<noteq> None"
    using k by auto
next
  assume a: "1 \<le> n \<and> n \<le> length ps \<and> \<not> ignored n \<and> check n (ps ! (n - 1)) \<noteq> None"
  then obtain v where v: "check n (ps ! (n - 1)) = Some v" by blast
  have "n - 1 < length ps \<and> \<not> ignored (0 + (n - 1) + 1)
      \<and> check (0 + (n - 1) + 1) (ps ! (n - 1)) = Some v"
    using a v by auto
  then have "v \<in> set (page_loop ignored check 0 ps)"
    unfolding page_loop_mem by blast
  then show "\<exists>v \<in> set (page_loop ignored check 0 ps). pg v = n"
    using tag [OF v] by blast
qed



section \<open>Coverage engine: the claims\<close>

lemma union_len_merged: "union_len xs = merged_len (sort (filter (\<lambda>(a, b). b > a) xs))"
  by (simp add: union_len_def merged_len_def Let_def)

lemma merge_pass_absorb:
  "a < b \<Longrightarrow> b \<le> cur_b \<Longrightarrow>
   merge_pass tot cur_a cur_b ((a, b) # rest) = merge_pass tot cur_a cur_b rest"
  by simp

lemma merge_pass_remdups_adj:
  "\<forall>(a, b) \<in> set (p # rest). a < b \<Longrightarrow>
   merge_pass tot cur_a cur_b (remdups_adj (p # rest)) = merge_pass tot cur_a cur_b (p # rest)"
proof (induction rest arbitrary: tot cur_a cur_b p)
  case Nil
  then show ?case by simp
next
  case (Cons q rest)
  obtain a b where p: "p = (a, b)" by (cases p)
  have ab: "a < b" using Cons.prems p by simp
  have IH: "\<And>t ca cb. merge_pass t ca cb (remdups_adj (q # rest)) = merge_pass t ca cb (q # rest)"
    using Cons.IH [of q] Cons.prems by simp
  show ?case
  proof (cases "p = q")
    case True
    have "merge_pass tot cur_a cur_b (remdups_adj (p # q # rest))
          = merge_pass tot cur_a cur_b (remdups_adj (q # rest))"
      using True by simp
    also have "\<dots> = merge_pass tot cur_a cur_b (q # rest)" by (rule IH)
    also have "\<dots> = merge_pass tot cur_a cur_b (p # q # rest)"
      using True p ab by (auto simp add: max_def)
    finally show ?thesis .
  next
    case False
    then have "remdups_adj (p # q # rest) = p # remdups_adj (q # rest)" by simp
    then show ?thesis using IH p by simp
  qed
qed

lemma merged_len_head:
  "a < b \<Longrightarrow> merged_len ((a, b) # rest) = merge_pass 0 a b ((a, b) # rest)"
  by (simp add: merged_len_def)

lemma merged_len_remdups_adj:
  assumes nd: "\<forall>(a, b) \<in> set ys. a < b"
  shows "merged_len (remdups_adj ys) = merged_len ys"
proof (cases ys)
  case Nil
  then show ?thesis by simp
next
  case (Cons p rest)
  obtain a b where p: "p = (a, b)" by (cases p)
  have ab: "a < b" using nd Cons p by simp
  have "remdups_adj (p # rest) = p # tl (remdups_adj (p # rest))" by simp
  then obtain rest' where r: "remdups_adj (p # rest) = (a, b) # rest'" using p by metis
  have "merged_len (remdups_adj ys) = merge_pass 0 a b (remdups_adj (p # rest))"
    using Cons r ab by (simp add: merged_len_def)
  also have "\<dots> = merge_pass 0 a b (p # rest)"
    using nd Cons by (intro merge_pass_remdups_adj) simp
  also have "\<dots> = merged_len ys"
    using Cons p ab merged_len_head [of a b rest] by simp
  finally show ?thesis .
qed

lemma sorted_distinct_remdups_adj:
  "sorted (xs :: 'a :: linorder list) \<Longrightarrow> distinct (remdups_adj xs)"
  by (induction xs rule: remdups_adj.induct) (auto split: if_splits)

lemma remdups_adj_sort_eq:
  "remdups_adj (sort (xs :: 'a :: linorder list)) = sorted_list_of_set (set xs)"
proof (rule sorted_distinct_set_unique)
  show "sorted (remdups_adj (sort xs))" by simp
  show "distinct (remdups_adj (sort xs))" by (simp add: sorted_distinct_remdups_adj)
  show "sorted (sorted_list_of_set (set xs))" by simp
  show "distinct (sorted_list_of_set (set xs))" by simp
  show "set (remdups_adj (sort xs)) = set (sorted_list_of_set (set xs))" by simp
qed

lemma union_len_set:
  "union_len xs = merged_len (sorted_list_of_set {(a, b) \<in> set xs. a < b})"
proof -
  let ?f = "filter (\<lambda>(a, b). b > a) xs"
  have nd: "\<forall>(a, b) \<in> set (sort ?f). a < b" by auto
  have "union_len xs = merged_len (sort ?f)" by (rule union_len_merged)
  also have "\<dots> = merged_len (remdups_adj (sort ?f))"
    using merged_len_remdups_adj [OF nd] by simp
  also have "\<dots> = merged_len (sorted_list_of_set (set ?f))"
    by (simp only: remdups_adj_sort_eq)
  also have "set ?f = {(a, b) \<in> set xs. a < b}" by auto
  finally show ?thesis .
qed

lemma union_len_cong_set: "set xs = set ys \<Longrightarrow> union_len xs = union_len ys"
  by (simp add: union_len_set)

text \<open>
  C5: the union length is the same for any reordering of the interval list (equal
  multisets), and more generally for any two lists with the same set of intervals, so
  inserting an interval that is already present changes nothing; an interval with
  \<open>y1 \<le> y0\<close> contributes nothing; the empty list has union length 0 and, over the body
  height the gates compute, coverage 0 (not 1).
\<close>

theorem C5_union_len_invariant:
  "(mset xs = mset ys \<longrightarrow> union_len xs = union_len ys)
   \<and> (set xs = set ys \<longrightarrow> union_len xs = union_len ys)
   \<and> (p \<in> set (us @ vs) \<longrightarrow> union_len (us @ p # vs) = union_len (us @ vs))
   \<and> (y1 \<le> y0 \<longrightarrow> union_len (us @ (y0, y1) # vs) = union_len (us @ vs))
   \<and> union_len [] = 0
   \<and> coverage [] (body_h cfg h) = 0
   \<and> coverage [] (body_h cfg h) \<noteq> 1"
proof (intro conjI impI)
  assume "mset xs = mset ys"
  then have "set xs = set ys" by (rule mset_eq_setD)
  then show "union_len xs = union_len ys" by (rule union_len_cong_set)
next
  assume "set xs = set ys"
  then show "union_len xs = union_len ys" by (rule union_len_cong_set)
next
  assume "p \<in> set (us @ vs)"
  then have "set (us @ p # vs) = set (us @ vs)" by auto
  then show "union_len (us @ p # vs) = union_len (us @ vs)" by (rule union_len_cong_set)
next
  assume "y1 \<le> y0"
  then show "union_len (us @ (y0, y1) # vs) = union_len (us @ vs)"
    by (simp add: union_len_def)
next
  show "union_len [] = 0" by (simp add: union_len_def)
next
  have "body_h cfg h \<noteq> 0" using body_h_ge_1 [of cfg h] by linarith
  then show "coverage [] (body_h cfg h) = 0" by (simp add: coverage_def union_len_def)
next
  have "body_h cfg h \<noteq> 0" using body_h_ge_1 [of cfg h] by linarith
  then show "coverage [] (body_h cfg h) \<noteq> 1" by (simp add: coverage_def union_len_def)
qed

theorem C5_union_len_invariant_witness:
  "mset [(3, 5), (1, 2), (1, 4)] = mset ([(1, 4), (3, 5), (1, 2)] :: (real \<times> real) list)
   \<and> union_len [(3, 5), (1, 2), (1, 4)] = 4
   \<and> union_len [(1, 4), (3, 5), (1, 2)] = 4
   \<and> set [(3, 5), (1, 2), (1, 4)] = set ([(1, 4), (3, 5), (1, 2)] :: (real \<times> real) list)
   \<and> (1, 4) \<in> set ([(3, 5)] @ [(1, 2), (1, 4)] :: (real \<times> real) list)
   \<and> union_len ([(3, 5)] @ (1, 4) # [(1, 2), (1, 4)]) = 4
   \<and> (6 :: real) \<le> 7
   \<and> union_len ([(3, 5)] @ (7, 6) # [(1, 2), (1, 4)]) = 4
   \<and> coverage [] (body_h example_A_config 800) = 0"
proof -
  have m: "mset [(3, 5), (1, 2), (1, 4)] = mset ([(1, 4), (3, 5), (1, 2)] :: (real \<times> real) list)"
    by simp
  have st: "set [(3, 5), (1, 2), (1, 4)] = set ([(1, 4), (3, 5), (1, 2)] :: (real \<times> real) list)"
    by auto
  have v: "union_len [(3, 5), (1, 2), (1, 4)] = 4"
    by (simp add: union_len_def)
  have v': "union_len ([(3, 5)] @ [(1, 2), (1, 4)]) = 4"
    by (simp add: union_len_def)
  show ?thesis
    using C5_union_len_invariant [of "[(3, 5), (1, 2), (1, 4)]" "[(1, 4), (3, 5), (1, 2)]"
        "(1, 4)" "[(3, 5)]" "[(1, 2), (1, 4)]" 6 7 example_A_config 800] m st v v'
    by simp
qed

section \<open>Column-Balance gate: the claims\<close>












section \<open>Page-Fill gate: the claims\<close>

lemma fill_block_skip:
  "\<not> (strip text \<noteq> [] \<and> max 0 (x1 - x0) * max 0 (y1 - y0) \<ge> 200 \<and> in_body cfg n w h (x0, y0, x1, y1))
   \<Longrightarrow> fill_block cfg n w h y (x0, y0, x1, y1, text) = y"
  by (auto simp add: fill_block_def Let_def)

lemma foldl_fill_block_skip:
  "\<forall>(x0, y0, x1, y1, text) \<in> set bs.
      \<not> (strip text \<noteq> [] \<and> max 0 (x1 - x0) * max 0 (y1 - y0) \<ge> 200 \<and> in_body cfg n w h (x0, y0, x1, y1))
   \<Longrightarrow> foldl (fill_block cfg n w h) y bs = y"
proof (induction bs arbitrary: y)
  case Nil
  then show ?case by simp
next
  case (Cons b bs)
  obtain x0 y0 x1 y1 t where b: "b = (x0, y0, x1, y1, t)" by (cases b)
  have "fill_block cfg n w h y b = y"
    unfolding b using Cons.prems b by (intro fill_block_skip) simp
  then show ?case using Cons by simp
qed

lemma foldl_fill_image_rect_skip:
  "\<forall>r \<in> set rs. \<not> in_body cfg n w h r \<Longrightarrow> foldl (fill_image_rect cfg n w h) y rs = y"
  by (induction rs arbitrary: y) (auto simp add: fill_image_rect_def)

lemma foldl_images_skip:
  "\<forall>rs \<in> set imgs. \<forall>r \<in> set rs. \<not> in_body cfg n w h r
   \<Longrightarrow> foldl (\<lambda>y rects. foldl (fill_image_rect cfg n w h) y rects) y imgs = y"
  by (induction imgs arbitrary: y) (simp_all add: foldl_fill_image_rect_skip)


text \<open>
  C6: on a page that is not ignored (and has positive width and height), if no text block
  is at once non-empty after stripping, of area at least 200 and in the body, and no
  image rectangle is in the body (in the sense of the gate's own \<^verbatim>\<open>in_body\<close> test), then
  \<open>used_ratio\<close> is 0 and, for every \<open>min_used\<close> in (0, 1], the page is recorded as a
  violation, in the page's check and in the list \<^verbatim>\<open>bad\<close>.
\<close>

theorem C6_empty_page_flagged:
  assumes "0 < rect_width page" and "0 < rect_height page"
    and "\<forall>(x0, y0, x1, y1, text) \<in> set (text_blocks page).
           \<not> (strip text \<noteq> [] \<and> 200 \<le> max 0 (x1 - x0) * max 0 (y1 - y0)
              \<and> in_body cfg n (rect_width page) (rect_height page) (x0, y0, x1, y1))"
    and "\<forall>rects \<in> set (image_rects page). \<forall>r \<in> set rects.
           \<not> in_body cfg n (rect_width page) (rect_height page) r"
    and "0 < min_used args" and "min_used args \<le> 1"
  shows "used_ratio cfg n page = 0
     \<and> (\<exists>v. page_fill_page args cfg n page = Some v \<and> pf_page v = n \<and> pf_used_ratio v = 0)
     \<and> (\<forall>doc. 1 \<le> n \<and> n \<le> length (pages doc) \<and> pages doc ! (n - 1) = page
              \<and> \<not> pf_page_ignored args doc n
          \<longrightarrow> (\<exists>v \<in> set (page_fill_bad args cfg doc). pf_page v = n \<and> pf_used_ratio v = 0))"
proof -
  have ym: "y_max cfg n page = body_y0 cfg"
    using assms(3,4)
    by (simp add: y_max_def Let_def foldl_fill_block_skip foldl_images_skip)
  have "body_h cfg (rect_height page) \<noteq> 0"
    using body_h_ge_1 [of cfg "rect_height page"] by linarith
  then have ur: "used_ratio cfg n page = 0"
    by (simp add: used_ratio_def ym)
  have r0: "py_round 0 3 = 0" by (simp add: py_round_def)
  define v where "v = \<lparr>pf_page = n, pf_used_ratio = py_round (used_ratio cfg n page) 3,
                 pf_y_max = py_round (y_max cfg n page) 1,
                 pf_body_y0 = py_round (body_y0 cfg) 1,
                 pf_body_y1 = py_round (body_y1 cfg (rect_height page)) 1\<rparr>"
  have pg: "page_fill_page args cfg n page = Some v"
    using assms(1,2,5) by (simp add: page_fill_page_def ur v_def)
  have vp: "pf_page v = n" "pf_used_ratio v = 0"
    by (simp_all add: v_def ur r0)
  have lst: "\<exists>v \<in> set (page_fill_bad args cfg doc). pf_page v = n \<and> pf_used_ratio v = 0"
    if d: "1 \<le> n \<and> n \<le> length (pages doc) \<and> pages doc ! (n - 1) = page
           \<and> \<not> pf_page_ignored args doc n" for doc
  proof -
    have "n - 1 < length (pages doc) \<and> \<not> pf_page_ignored args doc (0 + (n - 1) + 1)
          \<and> page_fill_page args cfg (0 + (n - 1) + 1) (pages doc ! (n - 1)) = Some v"
      using d pg by auto
    then have "v \<in> set (page_fill_bad args cfg doc)"
      unfolding page_fill_bad_def page_loop_mem by blast
    then show ?thesis using vp by blast
  qed
  show ?thesis using ur pg vp lst by blast
qed

theorem C6_empty_page_flagged_witness:
  "0 < rect_width example_empty_page \<and> 0 < rect_height example_empty_page
   \<and> 0 < min_used pf_default_args \<and> min_used pf_default_args \<le> 1
   \<and> \<not> pf_page_ignored pf_default_args example_empty_doc 3
   \<and> used_ratio example_A_config 3 example_empty_page = 0
   \<and> (\<exists>v \<in> set (page_fill_bad pf_default_args example_A_config example_empty_doc).
         pf_page v = 3 \<and> pf_used_ratio v = 0)"
proof -
  have sz: "0 < rect_width example_empty_page" "0 < rect_height example_empty_page"
    by (simp_all add: example_empty_page_def)
  have blocks: "\<forall>(x0, y0, x1, y1, text) \<in> set (text_blocks example_empty_page).
           \<not> (strip text \<noteq> [] \<and> 200 \<le> max 0 (x1 - x0) * max 0 (y1 - y0)
              \<and> in_body example_A_config 3 (rect_width example_empty_page)
                   (rect_height example_empty_page) (x0, y0, x1, y1))"
    by (simp add: example_empty_page_def in_body_def example_A_config_def geometry_defs
        strip_def lstrip_def rstrip_def is_space_def py_def cp_def)
  have images: "\<forall>rects \<in> set (image_rects example_empty_page). \<forall>r \<in> set rects.
           \<not> in_body example_A_config 3 (rect_width example_empty_page)
                (rect_height example_empty_page) r"
    by (simp add: example_empty_page_def in_body_def example_A_config_def geometry_defs)
  have mu: "0 < min_used pf_default_args" "min_used pf_default_args \<le> 1"
    by (simp_all add: pf_default_args_def)
  have ign: "\<not> pf_page_ignored pf_default_args example_empty_doc 3"
    by (simp add: pf_page_ignored_def page_ignored_def pf_default_args_def ignore_pages_def
        example_empty_doc_def)
  have pg: "1 \<le> (3::nat) \<and> 3 \<le> length (pages example_empty_doc)
      \<and> pages example_empty_doc ! (3 - 1) = example_empty_page"
    by (simp add: example_empty_doc_def)
  show ?thesis
    using C6_empty_page_flagged [OF sz blocks images mu, of ] sz mu ign pg by blast
qed

section \<open>Bullet-Orphan-Split gate: the claims\<close>

lemma bullet_orphan_page_tag: "bullet_orphan_page cfg m p = Some v \<Longrightarrow> bo_page v = m"
  by (auto simp add: bullet_orphan_page_def orphan_decision_def Let_def split: if_splits)

lemma bullet_orphan_bad_page:
  "(\<exists>v \<in> set (bullet_orphan_bad args cfg doc). bo_page v = n) \<longleftrightarrow>
     1 \<le> n \<and> n \<le> length (pages doc) \<and> \<not> bo_page_ignored args doc n
     \<and> bullet_orphan_page cfg n (pages doc ! (n - 1)) \<noteq> None"
  unfolding bullet_orphan_bad_def
  by (rule page_loop_page) (rule bullet_orphan_page_tag)

lemma singleton_list: "length ys = 1 \<Longrightarrow> ys = [hd ys]"
  by (cases ys) simp_all

lemma orphan_decision_iff:
  "orphan_decision n by0 by1 bh lys rys \<noteq> None \<longleftrightarrow>
     (length lys = 1 \<and> length rys \<ge> 3
        \<and> (hd lys - by0) / bh \<ge> 0.65 \<and> (Min (set rys) - by0) / bh \<le> 0.40)
     \<or> (length rys = 1 \<and> length lys \<ge> 3
        \<and> (hd rys - by0) / bh \<ge> 0.65 \<and> (Min (set lys) - by0) / bh \<le> 0.40)"
proof (cases "length lys = 1")
  case True
  then have l: "lys = [hd lys]" by (rule singleton_list)
  have ml: "Max (set lys) = hd lys" by (subst l) simp
  have ne: "lys \<noteq> []" using True by auto
  show ?thesis
  proof (cases "length rys \<ge> 3")
    case True
    then have "rys \<noteq> []" by auto
    then show ?thesis
      using \<open>length lys = 1\<close> True ne ml
      by (simp add: orphan_decision_def Let_def)
  next
    case False
    then show ?thesis
      using \<open>length lys = 1\<close>
      by (auto simp add: orphan_decision_def Let_def min_def max_def)
  qed
next
  case False
  note nl = False
  show ?thesis
  proof (cases "length rys = 1")
    case True
    then have r: "rys = [hd rys]" by (rule singleton_list)
    have mr: "Max (set rys) = hd rys" by (subst r) simp
    show ?thesis
    proof (cases "length lys \<ge> 3")
      case True
      then show ?thesis
        using \<open>length rys = 1\<close> nl mr
        by (auto simp add: orphan_decision_def Let_def min_def max_def)
    next
      case False
      then show ?thesis
        using \<open>length rys = 1\<close> nl
        by (auto simp add: orphan_decision_def Let_def min_def max_def)
    qed
  next
    case False
    then show ?thesis
      using nl by (auto simp add: orphan_decision_def Let_def min_def max_def)
  qed
qed

text \<open>
  C7: on a page that is not ignored (with the default arguments no page is) and has
  positive width and height, a violation is recorded, in the page's check and so in the
  list \<^verbatim>\<open>bad\<close>, exactly when one column has exactly one bullet line and the other at least
  three, the lone bullet's normalised position is at least 0.65 and the normalised
  position of the topmost bullet of the other column is at most 0.40.  In particular a
  page with one bullet at 0.80 on the left and four on the right, the first at 0.10, is
  flagged.
\<close>

theorem C7_bullet_orphan_iff:
  fixes cfg :: layout_config and n :: nat and page :: pdf_page
  defines "lys \<equiv> left_ys cfg n page" and "rys \<equiv> right_ys cfg n page"
    and "h \<equiv> rect_height page"
  assumes "0 < rect_width page" and "0 < rect_height page"
  shows "(bullet_orphan_page cfg n page \<noteq> None \<longleftrightarrow>
            (length lys = 1 \<and> length rys \<ge> 3
               \<and> norm_pos cfg h (hd lys) \<ge> 0.65 \<and> norm_pos cfg h (Min (set rys)) \<le> 0.40)
            \<or> (length rys = 1 \<and> length lys \<ge> 3
               \<and> norm_pos cfg h (hd rys) \<ge> 0.65 \<and> norm_pos cfg h (Min (set lys)) \<le> 0.40))
       \<and> (length lys = 1 \<and> norm_pos cfg h (hd lys) = 0.80
            \<and> length rys = 4 \<and> norm_pos cfg h (Min (set rys)) = 0.10
            \<longrightarrow> bullet_orphan_page cfg n page \<noteq> None)
       \<and> (\<forall>doc args. 1 \<le> n \<and> n \<le> length (pages doc) \<and> pages doc ! (n - 1) = page
                \<and> \<not> bo_page_ignored args doc n
            \<longrightarrow> ((\<exists>v \<in> set (bullet_orphan_bad args cfg doc). bo_page v = n) \<longleftrightarrow>
                    bullet_orphan_page cfg n page \<noteq> None))
       \<and> (\<forall>doc. 1 \<le> n \<and> n \<le> length (pages doc) \<longrightarrow> \<not> bo_page_ignored bo_default_args doc n)"
proof -
  have sz: "\<not> (rect_width page \<le> 0 \<or> rect_height page \<le> 0)" using assms by simp
  have iff: "bullet_orphan_page cfg n page \<noteq> None \<longleftrightarrow>
            (length lys = 1 \<and> length rys \<ge> 3
               \<and> norm_pos cfg h (hd lys) \<ge> 0.65 \<and> norm_pos cfg h (Min (set rys)) \<le> 0.40)
            \<or> (length rys = 1 \<and> length lys \<ge> 3
               \<and> norm_pos cfg h (hd rys) \<ge> 0.65 \<and> norm_pos cfg h (Min (set lys)) \<le> 0.40)"
    using sz unfolding bullet_orphan_page_def norm_pos_def lys_def rys_def h_def
    by (simp only: if_False orphan_decision_iff)
  have ex: "length lys = 1 \<and> norm_pos cfg h (hd lys) = 0.80
            \<and> length rys = 4 \<and> norm_pos cfg h (Min (set rys)) = 0.10
            \<longrightarrow> bullet_orphan_page cfg n page \<noteq> None"
    unfolding iff by simp
  have lst: "\<forall>doc args. 1 \<le> n \<and> n \<le> length (pages doc) \<and> pages doc ! (n - 1) = page
                \<and> \<not> bo_page_ignored args doc n
            \<longrightarrow> ((\<exists>v \<in> set (bullet_orphan_bad args cfg doc). bo_page v = n) \<longleftrightarrow>
                    bullet_orphan_page cfg n page \<noteq> None)"
    unfolding bullet_orphan_bad_page by blast
  have noign: "\<forall>doc. 1 \<le> n \<and> n \<le> length (pages doc) \<longrightarrow> \<not> bo_page_ignored bo_default_args doc n"
    by (simp add: bo_page_ignored_def page_ignored_def bo_default_args_def)
  show ?thesis
    apply (intro conjI)
       apply (rule iff)
      apply (rule ex)
     apply (rule lst)
    apply (rule noign)
    done
qed

theorem C7_bullet_orphan_iff_witness:
  "0 < rect_width example_D_page \<and> 0 < rect_height example_D_page
   \<and> length (left_ys example_A_config 1 example_D_page) = 1
   \<and> norm_pos example_A_config (rect_height example_D_page)
        (hd (left_ys example_A_config 1 example_D_page)) = 0.80
   \<and> length (right_ys example_A_config 1 example_D_page) = 4
   \<and> norm_pos example_A_config (rect_height example_D_page)
        (Min (set (right_ys example_A_config 1 example_D_page))) = 0.10
   \<and> bullet_orphan_page example_A_config 1 example_D_page \<noteq> None
   \<and> \<not> bo_page_ignored bo_default_args example_D_doc 1
   \<and> (\<exists>v \<in> set (bullet_orphan_bad bo_default_args example_A_config example_D_doc). bo_page v = 1)"
proof -
  note inst = C7_bullet_orphan_iff [where page = example_D_page and cfg = example_A_config and n = 1]
  have sz: "0 < rect_width example_D_page" "0 < rect_height example_D_page"
    by (simp_all add: example_D_page_def)
  have ys: "bullet_ys example_A_config 1 example_D_page = ([616], [112, 132, 152, 172])"
    by (simp add: bullet_ys_def bullet_line_def example_D_page_def spans_text_def
        startswith_bullet_def strip_def lstrip_def rstrip_def is_space_def py_def cp_def
        example_A_config_def geometry_defs)
  have l: "left_ys example_A_config 1 example_D_page = [616]"
    unfolding left_ys_def ys by simp
  have r: "right_ys example_A_config 1 example_D_page = [112, 132, 152, 172]"
    unfolding right_ys_def ys by simp
  have bh: "body_h example_A_config (rect_height example_D_page) = 720"
    "body_y0 example_A_config = 40"
    by (simp_all add: example_D_page_def example_A_config_def geometry_defs)
  have nl: "norm_pos example_A_config (rect_height example_D_page)
        (hd (left_ys example_A_config 1 example_D_page)) = 0.80"
    unfolding norm_pos_def l bh by simp
  have nr: "norm_pos example_A_config (rect_height example_D_page)
        (Min (set (right_ys example_A_config 1 example_D_page))) = 0.10"
    unfolding norm_pos_def r bh by simp
  have ll: "length (left_ys example_A_config 1 example_D_page) = 1" unfolding l by simp
  have lr: "length (right_ys example_A_config 1 example_D_page) = 4" unfolding r by simp
  have flagged: "bullet_orphan_page example_A_config 1 example_D_page \<noteq> None"
    using inst [OF sz, THEN conjunct2, THEN conjunct1] ll nl lr nr by blast
  have pg: "1 \<le> (1::nat) \<and> 1 \<le> length (pages example_D_doc)
      \<and> pages example_D_doc ! (1 - 1) = example_D_page"
    by (simp add: example_D_doc_def)
  have ign: "\<not> bo_page_ignored bo_default_args example_D_doc 1"
    using inst [OF sz, THEN conjunct2, THEN conjunct2, THEN conjunct2, rule_format,
        of example_D_doc] pg by blast
  have inlist: "\<exists>v \<in> set (bullet_orphan_bad bo_default_args example_A_config example_D_doc).
      bo_page v = 1"
    using inst [OF sz, THEN conjunct2, THEN conjunct2, THEN conjunct1, rule_format,
        of example_D_doc bo_default_args] pg ign flagged by blast
  show ?thesis
    apply (intro conjI)
            apply (rule sz(1))
           apply (rule sz(2))
          apply (rule ll)
         apply (rule nl)
        apply (rule lr)
       apply (rule nr)
      apply (rule flagged)
     apply (rule ign)
    apply (rule inlist)
    done
qed

section \<open>Justification-Gap gate: the claims\<close>

lemma check_line_short:
  "span_ratio cfg n w ws < min_span_ratio args \<Longrightarrow>
   check_line args digit cfg n w col (key, ws) = None"
  by (simp add: check_line_def Let_def)

lemma check_line_Some_span:
  "check_line args digit cfg n w col (key, ws) = Some v \<Longrightarrow>
   min_span_ratio args \<le> span_ratio cfg n w ws"
  by (rule ccontr) (simp add: check_line_short)

lemma map_filter_mem:
  "v \<in> set (List.map_filter f xs) \<longleftrightarrow> (\<exists>x \<in> set xs. f x = Some v)"
  by (induction xs) (auto simp add: List.map_filter_simps split: option.splits)

lemma justify_gaps_page_mem:
  assumes "v \<in> set (justify_gaps_page args digit cfg n page)"
  shows "\<exists>col key ws.
           (key, ws) \<in> set (fst (lines_by_col cfg n page)) \<union> set (snd (lines_by_col cfg n page))
           \<and> check_line args digit cfg n (rect_width page) col (key, ws) = Some v
           \<and> min_span_ratio args \<le> span_ratio cfg n (rect_width page) ws"
proof -
  obtain m0 m1 where m: "lines_by_col cfg n page = (m0, m1)"
    by (cases "lines_by_col cfg n page")
  have "v \<in> set (List.map_filter (check_line args digit cfg n (rect_width page) 0) m0)
        \<or> v \<in> set (List.map_filter (check_line args digit cfg n (rect_width page) 1) m1)"
    using assms by (auto simp add: justify_gaps_page_def m split: if_splits)
  then obtain col e where e: "e \<in> set m0 \<union> set m1"
    "check_line args digit cfg n (rect_width page) col e = Some v"
    unfolding map_filter_mem by blast
  obtain key ws where kw: "e = (key, ws)" by (cases e)
  have mem: "(key, ws) \<in> set (fst (lines_by_col cfg n page)) \<union> set (snd (lines_by_col cfg n page))"
    using e(1) unfolding kw m by simp
  have chk: "check_line args digit cfg n (rect_width page) col (key, ws) = Some v"
    using e(2) unfolding kw .
  have "min_span_ratio args \<le> span_ratio cfg n (rect_width page) ws"
    using chk by (rule check_line_Some_span)
  then show ?thesis using mem chk by blast
qed

lemma justify_gaps_bad_mem:
  "v \<in> set (justify_gaps_bad args digit cfg doc) \<longleftrightarrow>
     (\<exists>k < length (pages doc). \<not> jg_page_ignored args doc (k + 1)
           \<and> v \<in> set (justify_gaps_page args digit cfg (k + 1) (pages doc ! k)))"
proof
  assume "v \<in> set (justify_gaps_bad args digit cfg doc)"
  then obtain vs where vs: "vs \<in> set (page_loop (jg_page_ignored args doc)
               (\<lambda>page_no page. Some (justify_gaps_page args digit cfg page_no page)) 0 (pages doc))"
    and v: "v \<in> set vs"
    unfolding justify_gaps_bad_def by auto
  from vs obtain k where "k < length (pages doc)" "\<not> jg_page_ignored args doc (0 + k + 1)"
    "Some (justify_gaps_page args digit cfg (0 + k + 1) (pages doc ! k)) = Some vs"
    unfolding page_loop_mem by blast
  then show "\<exists>k < length (pages doc). \<not> jg_page_ignored args doc (k + 1)
           \<and> v \<in> set (justify_gaps_page args digit cfg (k + 1) (pages doc ! k))"
    using v by auto
next
  assume "\<exists>k < length (pages doc). \<not> jg_page_ignored args doc (k + 1)
           \<and> v \<in> set (justify_gaps_page args digit cfg (k + 1) (pages doc ! k))"
  then obtain k where k: "k < length (pages doc)" "\<not> jg_page_ignored args doc (k + 1)"
    "v \<in> set (justify_gaps_page args digit cfg (k + 1) (pages doc ! k))" by blast
  have "justify_gaps_page args digit cfg (k + 1) (pages doc ! k)
      \<in> set (page_loop (jg_page_ignored args doc)
               (\<lambda>page_no page. Some (justify_gaps_page args digit cfg page_no page)) 0 (pages doc))"
    unfolding page_loop_mem using k(1,2) by auto
  then show "v \<in> set (justify_gaps_bad args digit cfg doc)"
    unfolding justify_gaps_bad_def using k(3) by auto
qed

text \<open>
  C9: a line whose span is less than \<open>min_span_ratio\<close> of the column width is given no
  violation by the line check, whatever its words and gaps are; and every violation in the
  list \<^verbatim>\<open>bad\<close> was given to a line of a page whose span ratio is not below
  \<open>min_span_ratio\<close>.
\<close>

theorem C9_short_line_never_flagged:
  "(span_ratio cfg n w ws < min_span_ratio args \<longrightarrow>
      check_line args digit cfg n w col (key, ws) = None)
   \<and> (\<forall>v \<in> set (justify_gaps_bad args digit cfg doc).
        \<exists>k < length (pages doc). \<exists>col key ws.
          (key, ws) \<in> set (fst (lines_by_col cfg (k + 1) (pages doc ! k)))
                      \<union> set (snd (lines_by_col cfg (k + 1) (pages doc ! k)))
          \<and> check_line args digit cfg (k + 1) (rect_width (pages doc ! k)) col (key, ws) = Some v
          \<and> \<not> span_ratio cfg (k + 1) (rect_width (pages doc ! k)) ws < min_span_ratio args)"
proof (intro conjI impI ballI)
  assume "span_ratio cfg n w ws < min_span_ratio args"
  then show "check_line args digit cfg n w col (key, ws) = None" by (rule check_line_short)
next
  fix v
  assume "v \<in> set (justify_gaps_bad args digit cfg doc)"
  then obtain k where k: "k < length (pages doc)"
    "v \<in> set (justify_gaps_page args digit cfg (k + 1) (pages doc ! k))"
    unfolding justify_gaps_bad_mem by blast
  from justify_gaps_page_mem [OF k(2)] obtain col key ws where
    "(key, ws) \<in> set (fst (lines_by_col cfg (k + 1) (pages doc ! k)))
                      \<union> set (snd (lines_by_col cfg (k + 1) (pages doc ! k)))"
    "check_line args digit cfg (k + 1) (rect_width (pages doc ! k)) col (key, ws) = Some v"
    "min_span_ratio args \<le> span_ratio cfg (k + 1) (rect_width (pages doc ! k)) ws"
    by blast
  then have "(key, ws) \<in> set (fst (lines_by_col cfg (k + 1) (pages doc ! k)))
                      \<union> set (snd (lines_by_col cfg (k + 1) (pages doc ! k)))
          \<and> check_line args digit cfg (k + 1) (rect_width (pages doc ! k)) col (key, ws) = Some v
          \<and> \<not> span_ratio cfg (k + 1) (rect_width (pages doc ! k)) ws < min_span_ratio args"
    by simp
  then show "\<exists>k < length (pages doc). \<exists>col key ws.
          (key, ws) \<in> set (fst (lines_by_col cfg (k + 1) (pages doc ! k)))
                      \<union> set (snd (lines_by_col cfg (k + 1) (pages doc ! k)))
          \<and> check_line args digit cfg (k + 1) (rect_width (pages doc ! k)) col (key, ws) = Some v
          \<and> \<not> span_ratio cfg (k + 1) (rect_width (pages doc ! k)) ws < min_span_ratio args"
    using k(1) by blast
qed

theorem C9_short_line_never_flagged_witness:
  "span_ratio example_A_config 3 600 example_short_line < min_span_ratio jg_default_args
   \<and> w_x0 (example_short_line ! 1) - w_x1 (example_short_line ! 0) > max_gap_pt jg_default_args
   \<and> check_line jg_default_args is_digit example_A_config 3 600 0 ((0, 1), example_short_line) = None
   \<and> (\<exists>v \<in> set (justify_gaps_bad jg_default_args is_digit example_A_config example_gap_doc).
        \<exists>k < length (pages example_gap_doc). \<exists>col key ws.
          (key, ws) \<in> set (fst (lines_by_col example_A_config (k + 1) (pages example_gap_doc ! k)))
                      \<union> set (snd (lines_by_col example_A_config (k + 1) (pages example_gap_doc ! k)))
          \<and> check_line jg_default_args is_digit example_A_config (k + 1)
                (rect_width (pages example_gap_doc ! k)) col (key, ws) = Some v
          \<and> \<not> span_ratio example_A_config (k + 1) (rect_width (pages example_gap_doc ! k)) ws
                < min_span_ratio jg_default_args)"
proof -
  note inst = C9_short_line_never_flagged [of example_A_config 3 600 example_short_line
      jg_default_args is_digit 0 "(0, 1)" example_gap_doc]
  have cw: "col_w example_A_config 3 600 = 252.5"
    by (simp add: example_A_config_def geometry_defs)
  have sr: "span_ratio example_A_config 3 600 example_short_line < min_span_ratio jg_default_args"
    unfolding span_ratio_def cw
    by (simp add: line_span_def sorted_words_def example_short_line_def w_x0_def w_x1_def
        jg_default_args_def)
  have gp: "w_x0 (example_short_line ! 1) - w_x1 (example_short_line ! 0) > max_gap_pt jg_default_args"
    by (simp add: example_short_line_def w_x0_def w_x1_def jg_default_args_def)
  have none: "check_line jg_default_args is_digit example_A_config 3 600 0 ((0, 1), example_short_line) = None"
    using inst [THEN conjunct1] sr by blast
  have lines: "lines_by_col example_A_config 3 example_gap_page =
      ([((0, 0), example_long_line), ((0, 1), example_short_line)], [])"
    by (simp add: lines_by_col_def word_step_def example_gap_page_def
        example_long_line_def example_short_line_def
        strip_def lstrip_def rstrip_def is_space_def py_def cp_def
        example_A_config_def geometry_defs)
  have sr2: "\<not> span_ratio example_A_config 3 600 example_long_line < min_span_ratio jg_default_args"
    unfolding span_ratio_def cw
    by (simp add: line_span_def sorted_words_def example_long_line_def w_x0_def w_x1_def
        jg_default_args_def)
  have sw: "sorted_words example_long_line = example_long_line"
    by (simp add: sorted_words_def example_long_line_def w_x0_def)
  have len: "length example_long_line = 2" by (simp add: example_long_line_def)
  have tok: "map w_text example_long_line = [py ''Een'', py ''regel'']"
    by (simp add: example_long_line_def w_text_def)
  have mk: "\<not> is_marker_token is_digit (py ''Een'')"
    by (simp add: is_marker_token_def strip_def lstrip_def rstrip_def is_space_def py_def cp_def
        is_digit_def)
  have gaps: "w_x0 (example_long_line ! Suc 0) - w_x1 (example_long_line ! 0) = 140"
    by (simp add: example_long_line_def w_x0_def w_x1_def)
  have c1: "check_line jg_default_args is_digit example_A_config 3 600 0
      ((0, 0), example_long_line) \<noteq> None"
    unfolding check_line_def
    using sr2 by (simp add: Let_def sw len tok mk gaps jg_default_args_def)
  then obtain v where v: "check_line jg_default_args is_digit example_A_config 3 600 0
      ((0, 0), example_long_line) = Some v"
    by blast
  have w3: "rect_width example_gap_page = 600" by (simp add: example_gap_page_def)
  have "v \<in> set (justify_gaps_page jg_default_args is_digit example_A_config 3 example_gap_page)"
    unfolding justify_gaps_page_def lines w3
    by (simp add: List.map_filter_simps v example_gap_page_def)
  moreover have "pages example_gap_doc ! 2 = example_gap_page"
    by (simp add: example_gap_doc_def)
  ultimately have "v \<in> set (justify_gaps_page jg_default_args is_digit example_A_config (2 + 1)
      (pages example_gap_doc ! 2))"
    by simp
  moreover have "2 < length (pages example_gap_doc)"
    by (simp add: example_gap_doc_def)
  moreover have "\<not> jg_page_ignored jg_default_args example_gap_doc (2 + 1)"
    by (simp add: example_gap_doc_def jg_page_ignored_def page_ignored_def jg_default_args_def)
  ultimately have vin: "v \<in> set (justify_gaps_bad jg_default_args is_digit example_A_config example_gap_doc)"
    unfolding justify_gaps_bad_mem by blast
  show ?thesis
    using sr gp none vin inst [THEN conjunct2] by blast
qed

section \<open>Heading-Hyphenation gate: the claims\<close>

subsection \<open>What the two regular expressions accept\<close>

lemma first_some_None_iff: "first_some f xs = None \<longleftrightarrow> (\<forall>x \<in> set xs. f x = None)"
  by (induction xs) (auto split: option.splits)

lemma first_some_Some_iff: "first_some f xs \<noteq> None \<longleftrightarrow> (\<exists>x \<in> set xs. f x \<noteq> None)"
  by (simp add: first_some_None_iff)

lemma upto_set: "(\<exists>j \<in> set [0 ..< Suc n]. P j) \<longleftrightarrow> (\<exists>j \<le> n. P j)"
  by (simp only: set_upt) (auto simp add: less_Suc_eq_le)

lemma re_search_iff:
  "re_search items s \<noteq> None \<longleftrightarrow> (\<exists>k \<le> length s. rx_at items k (drop k s) [] [] \<noteq> None)"
proof -
  have "re_search items s \<noteq> None \<longleftrightarrow>
      first_some (\<lambda>k. rx_at items k (drop k s) [] []) [0 ..< Suc (length s)] \<noteq> None"
    unfolding re_search_def by (simp only: option.map_disc_iff)
  then show ?thesis
    by (simp only: first_some_Some_iff upto_set)
qed

lemma rx_at_Many:
  "rx_at (Many p # items) pos rest opened groups \<noteq> None \<longleftrightarrow>
     (\<exists>j \<le> length (takeWhile p rest). rx_at items (pos + j) (drop j rest) opened groups \<noteq> None)"
proof -
  have "rx_at (Many p # items) pos rest opened groups =
      first_some (\<lambda>j. rx_at items (pos + j) (drop j rest) opened groups)
        (rev [0 ..< Suc (length (takeWhile p rest))])"
    by (simp del: upt_Suc)
  then show ?thesis
    by (simp only: first_some_Some_iff set_rev upto_set)
qed

lemma is_letter_not_space: "is_letter c \<Longrightarrow> \<not> is_space c"
  by (auto simp add: is_letter_def is_space_def)

lemma hyphen_not_space: "\<not> is_space 45"
  by (simp add: is_space_def)

lemma newline_space: "is_space 10"
  by (simp add: is_space_def)

lemma takeWhile_prefix_all:
  "j \<le> length (takeWhile P xs) \<Longrightarrow> \<forall>x \<in> set (take j xs). P x"
proof -
  assume j: "j \<le> length (takeWhile P xs)"
  have "take j xs = take j (takeWhile P xs)"
    using j by (metis takeWhile_dropWhile_id take_append diff_is_0_eq take_0 append_Nil2)
  then show ?thesis by (metis in_set_takeD set_takeWhileD)
qed

lemma starts_letter_iff:
  "re_search starts_letter t \<noteq> None \<longleftrightarrow> lstrip t \<noteq> [] \<and> is_letter (hd (lstrip t))"
proof -
  let ?run = "length (takeWhile is_space t)"
  have one: "rx_at [One is_letter] p r [] [] \<noteq> None \<longleftrightarrow> r \<noteq> [] \<and> is_letter (hd r)" for p r
    by (cases r) simp_all
  have many: "rx_at [Many is_space, One is_letter] 0 t [] [] \<noteq> None \<longleftrightarrow>
      (\<exists>j \<le> ?run. drop j t \<noteq> [] \<and> is_letter (hd (drop j t)))"
    unfolding rx_at_Many one ..
  have at0: "(\<exists>k \<le> length t. rx_at starts_letter k (drop k t) [] [] \<noteq> None) \<longleftrightarrow>
      rx_at [Many is_space, One is_letter] 0 t [] [] \<noteq> None"
    by (auto simp add: starts_letter_def)
  have "(\<exists>j \<le> ?run. drop j t \<noteq> [] \<and> is_letter (hd (drop j t))) \<longleftrightarrow>
      dropWhile is_space t \<noteq> [] \<and> is_letter (hd (dropWhile is_space t))"
  proof
    assume "\<exists>j \<le> ?run. drop j t \<noteq> [] \<and> is_letter (hd (drop j t))"
    then obtain j where j: "j \<le> ?run" "drop j t \<noteq> []" "is_letter (hd (drop j t))" by blast
    have "\<not> j < ?run"
    proof
      assume lt: "j < ?run"
      then have "takeWhile is_space t ! j = t ! j" by (rule takeWhile_nth)
      moreover have "is_space (takeWhile is_space t ! j)"
        using lt by (metis nth_mem set_takeWhileD)
      moreover have "hd (drop j t) = t ! j"
        using j(2) by (simp add: hd_drop_conv_nth)
      ultimately show False using j(3) is_letter_not_space by auto
    qed
    then have "j = ?run" using j(1) by simp
    then have "drop j t = dropWhile is_space t" by (simp add: dropWhile_eq_drop)
    then show "dropWhile is_space t \<noteq> [] \<and> is_letter (hd (dropWhile is_space t))"
      using j by simp
  next
    assume "dropWhile is_space t \<noteq> [] \<and> is_letter (hd (dropWhile is_space t))"
    then have "drop ?run t \<noteq> [] \<and> is_letter (hd (drop ?run t))"
      by (simp add: dropWhile_eq_drop)
    then show "\<exists>j \<le> ?run. drop j t \<noteq> [] \<and> is_letter (hd (drop j t))" by blast
  qed
  then show ?thesis
    unfolding re_search_iff at0 many lstrip_def .
qed

lemma rstrip_append_spaces:
  assumes "\<forall>x \<in> set ws. is_space x"
  shows "rstrip (xs @ ws) = rstrip xs"
proof -
  have "dropWhile is_space (rev ws @ rev xs) = dropWhile is_space (rev xs)"
    by (rule dropWhile_append2) (use assms in auto)
  then show ?thesis by (simp add: rstrip_def)
qed

lemma rstrip_snoc_nonspace: "\<not> is_space c \<Longrightarrow> rstrip (xs @ [c]) = xs @ [c]"
  by (simp add: rstrip_def)

lemma rstrip_decomp: "\<exists>ws. t = rstrip t @ ws \<and> (\<forall>x \<in> set ws. is_space x)"
proof -
  have "rev t = takeWhile is_space (rev t) @ dropWhile is_space (rev t)" by simp
  then have "t = rev (dropWhile is_space (rev t)) @ rev (takeWhile is_space (rev t))"
    by (metis rev_append rev_rev_ident)
  moreover have "\<forall>x \<in> set (rev (takeWhile is_space (rev t))). is_space x"
    by (auto dest: set_takeWhileD)
  ultimately show ?thesis unfolding rstrip_def by blast
qed

lemma ends_with_hyphen_iff:
  "re_search ends_with_hyphen t \<noteq> None \<longleftrightarrow> rstrip t \<noteq> [] \<and> last (rstrip t) = 45"
proof -
  have eol: "rx_at [Eol] p r [] [] \<noteq> None \<longleftrightarrow> r = [] \<or> r = [10]" for p r
    by simp
  have tail: "rx_at [Many is_space, Eol] p r [] [] \<noteq> None \<longleftrightarrow> (\<forall>x \<in> set r. is_space x)" for p r
  proof -
    have "rx_at [Many is_space, Eol] p r [] [] \<noteq> None \<longleftrightarrow>
        (\<exists>j \<le> length (takeWhile is_space r). drop j r = [] \<or> drop j r = [10])"
      unfolding rx_at_Many eol ..
    also have "\<dots> \<longleftrightarrow> (\<forall>x \<in> set r. is_space x)"
    proof
      assume "\<exists>j \<le> length (takeWhile is_space r). drop j r = [] \<or> drop j r = [10]"
      then obtain j where j: "j \<le> length (takeWhile is_space r)" "drop j r = [] \<or> drop j r = [10]"
        by blast
      have a: "\<forall>x \<in> set (take j r). is_space x" using j(1) by (rule takeWhile_prefix_all)
      have b: "\<forall>x \<in> set (drop j r). is_space x" using j(2) newline_space by auto
      have "set r = set (take j r) \<union> set (drop j r)"
        by (metis append_take_drop_id set_append)
      then show "\<forall>x \<in> set r. is_space x" using a b by blast
    next
      assume all: "\<forall>x \<in> set r. is_space x"
      then have tw: "takeWhile is_space r = r" by (simp add: takeWhile_eq_all_conv)
      have "length r \<le> length (takeWhile is_space r) \<and> drop (length r) r = []"
        unfolding tw by simp
      then show "\<exists>j \<le> length (takeWhile is_space r). drop j r = [] \<or> drop j r = [10]" by blast
    qed
    finally show ?thesis .
  qed
  have at: "rx_at ends_with_hyphen p r [] [] \<noteq> None \<longleftrightarrow>
      (\<exists>ws. r = 45 # ws \<and> (\<forall>x \<in> set ws. is_space x))" for p r
  proof (cases r)
    case Nil
    then show ?thesis by (simp add: ends_with_hyphen_def)
  next
    case (Cons x xs)
    have "rx_at ends_with_hyphen p (x # xs) [] [] \<noteq> None \<longleftrightarrow>
        x = 45 \<and> rx_at [Many is_space, Eol] (p + 1) xs [] [] \<noteq> None"
      unfolding ends_with_hyphen_def by simp
    then show ?thesis unfolding Cons tail by auto
  qed
  have "(\<exists>k \<le> length t. \<exists>ws. drop k t = 45 # ws \<and> (\<forall>x \<in> set ws. is_space x)) \<longleftrightarrow>
      rstrip t \<noteq> [] \<and> last (rstrip t) = 45"
  proof
    assume "\<exists>k \<le> length t. \<exists>ws. drop k t = 45 # ws \<and> (\<forall>x \<in> set ws. is_space x)"
    then obtain k ws where k: "drop k t = 45 # ws" "\<forall>x \<in> set ws. is_space x" by blast
    have "t = (take k t @ [45]) @ ws" using k(1) by (metis append.assoc append_Cons append_Nil append_take_drop_id)
    then have "rstrip t = rstrip (take k t @ [45])"
      using k(2) rstrip_append_spaces by metis
    also have "\<dots> = take k t @ [45]" using hyphen_not_space by (rule rstrip_snoc_nonspace)
    finally show "rstrip t \<noteq> [] \<and> last (rstrip t) = 45" by simp
  next
    assume a: "rstrip t \<noteq> [] \<and> last (rstrip t) = 45"
    obtain ws where ws: "t = rstrip t @ ws" "\<forall>x \<in> set ws. is_space x"
      using rstrip_decomp by blast
    have r: "rstrip t = butlast (rstrip t) @ [45]" using a by (metis append_butlast_last_id)
    let ?k = "length (butlast (rstrip t))"
    have "t = butlast (rstrip t) @ 45 # ws" using ws(1) r by (metis append.assoc append_Cons append_Nil)
    then have "drop ?k t = 45 # ws \<and> ?k \<le> length t"
      by (metis append_eq_conv_conj length_append le_add1)
    then show "\<exists>k \<le> length t. \<exists>ws. drop k t = 45 # ws \<and> (\<forall>x \<in> set ws. is_space x)"
      using ws(2) by blast
  qed
  then show ?thesis unfolding re_search_iff at .
qed

subsection \<open>The records of a document\<close>

lemma adjacent_pairs_mem:
  "pr \<in> set (adjacent_pairs lines) \<longleftrightarrow> (\<exists>i. i + 1 < length lines \<and> pr = (lines ! i, lines ! (i + 1)))"
proof (cases "length lines < 2")
  case True
  then show ?thesis by (auto simp add: adjacent_pairs_def)
next
  case False
  have "pr \<in> set (zip lines (tl lines)) \<longleftrightarrow>
      (\<exists>i. i < length lines - 1 \<and> pr = (lines ! i, tl lines ! i))"
    by (auto simp add: set_zip)
  also have "\<dots> \<longleftrightarrow> (\<exists>i. i + 1 < length lines \<and> pr = (lines ! i, lines ! (i + 1)))"
    by (auto simp add: nth_tl less_diff_conv)
  finally show ?thesis using False by (simp add: adjacent_pairs_def)
qed

lemma heading_page_mem:
  "v \<in> set (heading_page thr n page) \<longleftrightarrow>
     (\<exists>lines \<in> set (dict_blocks page). \<exists>i. i + 1 < length lines
        \<and> check_pair thr n (lines ! i, lines ! (i + 1)) = Some v)"
proof -
  have ex: "(\<exists>pr \<in> set (adjacent_pairs lines). check_pair thr n pr = Some v) \<longleftrightarrow>
      (\<exists>i. i + 1 < length lines \<and> check_pair thr n (lines ! i, lines ! (i + 1)) = Some v)"
    for lines :: "dict_line list"
  proof
    assume "\<exists>pr \<in> set (adjacent_pairs lines). check_pair thr n pr = Some v"
    then obtain pr where pr: "pr \<in> set (adjacent_pairs lines)" "check_pair thr n pr = Some v"
      by blast
    from pr(1) obtain i where "i + 1 < length lines" "pr = (lines ! i, lines ! (i + 1))"
      unfolding adjacent_pairs_mem by blast
    then show "\<exists>i. i + 1 < length lines \<and> check_pair thr n (lines ! i, lines ! (i + 1)) = Some v"
      using pr(2) by blast
  next
    assume "\<exists>i. i + 1 < length lines \<and> check_pair thr n (lines ! i, lines ! (i + 1)) = Some v"
    then obtain i where i: "i + 1 < length lines"
      "check_pair thr n (lines ! i, lines ! (i + 1)) = Some v" by blast
    have "(lines ! i, lines ! (i + 1)) \<in> set (adjacent_pairs lines)"
      unfolding adjacent_pairs_mem using i(1) by blast
    then show "\<exists>pr \<in> set (adjacent_pairs lines). check_pair thr n pr = Some v"
      using i(2) by blast
  qed
  have "v \<in> set (heading_page thr n page) \<longleftrightarrow>
      (\<exists>lines \<in> set (dict_blocks page).
         \<exists>pr \<in> set (adjacent_pairs lines). check_pair thr n pr = Some v)"
    unfolding heading_page_def by (simp add: map_filter_mem)
  then show ?thesis unfolding ex .
qed

lemma heading_bad_mem:
  "v \<in> set (heading_bad body_pt delta_pt doc) \<longleftrightarrow>
     (\<exists>k < length (pages doc). \<exists>lines \<in> set (dict_blocks (pages doc ! k)). \<exists>i. i + 1 < length lines
        \<and> check_pair (heading_threshold body_pt delta_pt) (k + 1) (lines ! i, lines ! (i + 1)) = Some v)"
proof -
  let ?thr = "heading_threshold body_pt delta_pt"
  have "v \<in> set (heading_bad body_pt delta_pt doc) \<longleftrightarrow>
      (\<exists>k < length (pages doc). v \<in> set (heading_page ?thr (k + 1) (pages doc ! k)))"
  proof
    assume "v \<in> set (heading_bad body_pt delta_pt doc)"
    then obtain vs where vs: "vs \<in> set (page_loop (\<lambda>page_no. False)
               (\<lambda>page_no page. Some (heading_page ?thr page_no page)) 0 (pages doc))"
      and v: "v \<in> set vs"
      unfolding heading_bad_def by auto
    from vs obtain k where "k < length (pages doc)"
      "Some (heading_page ?thr (0 + k + 1) (pages doc ! k)) = Some vs"
      unfolding page_loop_mem by blast
    then show "\<exists>k < length (pages doc). v \<in> set (heading_page ?thr (k + 1) (pages doc ! k))"
      using v by auto
  next
    assume "\<exists>k < length (pages doc). v \<in> set (heading_page ?thr (k + 1) (pages doc ! k))"
    then obtain k where k: "k < length (pages doc)"
      "v \<in> set (heading_page ?thr (k + 1) (pages doc ! k))" by blast
    have "heading_page ?thr (k + 1) (pages doc ! k)
        \<in> set (page_loop (\<lambda>page_no. False)
               (\<lambda>page_no page. Some (heading_page ?thr page_no page)) 0 (pages doc))"
      unfolding page_loop_mem using k(1) by auto
    then show "v \<in> set (heading_bad body_pt delta_pt doc)"
      unfolding heading_bad_def using k(2) by auto
  qed
  then show ?thesis unfolding heading_page_mem .
qed

subsection \<open>The claim\<close>

text \<open>
  Claim C8 has the gate flag two heading-sized adjacent lines exactly when the first ends
  with a hyphen and the second begins with a letter.  The gate looks for less: its
  letters are \<^verbatim>\<open>A-Z\<close>, \<^verbatim>\<open>a-z\<close> and the letters of Latin-1, its hyphen is the
  hyphen-minus U+002D.  At 14pt over a body of 10pt, \<^verbatim>\<open>"Hors-"\<close> followed by a line
  beginning with the letter U+0153 is not flagged, nor is \<^verbatim>\<open>"Hors"\<close> ended by the hyphen
  U+2010 followed by \<^verbatim>\<open>"oeuvre"\<close>.
\<close>

theorem C8_heading_letter_counterexample:
  "line_text_and_size example_oe_l1 = (py ''Hors-'', 14)
   \<and> line_text_and_size example_oe_l2 = (339 # py ''uvre'', 14)
   \<and> line_text_and_size example_hy_l1 = (py ''Hors'' @ [8208], 14)
   \<and> line_text_and_size example_hy_l2 = (py ''oeuvre'', 14)
   \<and> (14::real) \<ge> 10 + 1.5
   \<and> check_pair (heading_threshold 10 1.5) 1 (example_oe_l1, example_oe_l2) = None
   \<and> check_pair (heading_threshold 10 1.5) 1 (example_hy_l1, example_hy_l2) = None"
proof -
  have a1: "line_text_and_size example_oe_l1 = (py ''Hors-'', 14)"
    by (simp add: line_text_and_size_def example_oe_l1_def)
  have a2: "line_text_and_size example_oe_l2 = (339 # py ''uvre'', 14)"
    by (simp add: line_text_and_size_def example_oe_l2_def)
  have b1: "line_text_and_size example_hy_l1 = (py ''Hors'' @ [8208], 14)"
    by (simp add: line_text_and_size_def example_hy_l1_def)
  have b2: "line_text_and_size example_hy_l2 = (py ''oeuvre'', 14)"
    by (simp add: line_text_and_size_def example_hy_l2_def)
  have "\<not> (lstrip (339 # py ''uvre'') \<noteq> [] \<and> is_letter (hd (lstrip (339 # py ''uvre''))))"
    by (simp add: lstrip_def is_space_def is_letter_def)
  then have oe: "re_search starts_letter (339 # py ''uvre'') = None"
    unfolding starts_letter_iff [symmetric] by simp
  have "\<not> (rstrip (py ''Hors'' @ [8208]) \<noteq> [] \<and> last (rstrip (py ''Hors'' @ [8208])) = 45)"
    by (simp add: rstrip_def is_space_def)
  then have hy: "re_search ends_with_hyphen (py ''Hors'' @ [8208]) = None"
    unfolding ends_with_hyphen_iff [symmetric] by simp
  have c1: "check_pair (heading_threshold 10 1.5) 1 (example_oe_l1, example_oe_l2) = None"
    by (simp add: check_pair_def a1 a2 oe)
  have c2: "check_pair (heading_threshold 10 1.5) 1 (example_hy_l1, example_hy_l2) = None"
    by (simp add: check_pair_def b1 b2 hy)
  show ?thesis
    using a1 a2 b1 b2 c1 c2 by simp
qed

text \<open>
  Claim C8, as the code has it. For two adjacent lines of one block whose greatest span
  sizes are both at least \<open>body_pt + delta_pt\<close> (\<open>delta_pt\<close> is 1.5 by default), the gate
  appends a record exactly when the first line, trailing white space removed, ends with
  the hyphen-minus U+002D (\<^verbatim>\<open>-\s*$\<close>) and the second line, leading white space removed,
  begins with a letter of the gate's class (\<^verbatim>\<open>A-Z\<close>, \<^verbatim>\<open>a-z\<close> and the Latin-1 letters
  U+00C0 to U+00FF without U+00D7 and U+00F7); nothing else of the two texts is looked
  at, so the position of the break in the word plays no part. The list \<^verbatim>\<open>bad\<close> holds
  exactly the records of the adjacent pairs of the blocks of the pages.
\<close>

theorem C8_heading_hyphenation_iff:
  fixes l1 l2 :: dict_line
  defines "t1 \<equiv> fst (line_text_and_size l1)" and "s1 \<equiv> snd (line_text_and_size l1)"
    and "t2 \<equiv> fst (line_text_and_size l2)" and "s2 \<equiv> snd (line_text_and_size l2)"
  shows "(s1 \<ge> body_pt + delta_pt \<and> s2 \<ge> body_pt + delta_pt \<longrightarrow>
            (check_pair (heading_threshold body_pt delta_pt) n (l1, l2) \<noteq> None \<longleftrightarrow>
               (rstrip t1 \<noteq> [] \<and> last (rstrip t1) = 45)
               \<and> (lstrip t2 \<noteq> [] \<and> is_letter (hd (lstrip t2)))))
       \<and> (s1 \<ge> body_pt + 1.5 \<and> s2 \<ge> body_pt + 1.5 \<longrightarrow>
            (check_pair (heading_threshold body_pt 1.5) n (l1, l2) \<noteq> None \<longleftrightarrow>
               (rstrip t1 \<noteq> [] \<and> last (rstrip t1) = 45)
               \<and> (lstrip t2 \<noteq> [] \<and> is_letter (hd (lstrip t2)))))
       \<and> (v \<in> set (heading_bad body_pt delta_pt doc) \<longleftrightarrow>
            (\<exists>k < length (pages doc). \<exists>lines \<in> set (dict_blocks (pages doc ! k)).
               \<exists>i. i + 1 < length lines
                 \<and> check_pair (heading_threshold body_pt delta_pt) (k + 1)
                      (lines ! i, lines ! (i + 1)) = Some v))"
proof -
  have gen: "s1 \<ge> body_pt + d \<and> s2 \<ge> body_pt + d \<longrightarrow>
            (check_pair (heading_threshold body_pt d) n (l1, l2) \<noteq> None \<longleftrightarrow>
               (rstrip t1 \<noteq> [] \<and> last (rstrip t1) = 45)
               \<and> (lstrip t2 \<noteq> [] \<and> is_letter (hd (lstrip t2))))" for d
  proof
    assume sz: "s1 \<ge> body_pt + d \<and> s2 \<ge> body_pt + d"
    obtain a b where l1: "line_text_and_size l1 = (a, b)" by (cases "line_text_and_size l1")
    obtain c e where l2: "line_text_and_size l2 = (c, e)" by (cases "line_text_and_size l2")
    have nb: "\<not> (b < body_pt + d \<or> e < body_pt + d)"
      using sz unfolding s1_def s2_def l1 l2 by simp
    have "check_pair (heading_threshold body_pt d) n (l1, l2) \<noteq> None \<longleftrightarrow>
        re_search ends_with_hyphen a \<noteq> None \<and> re_search starts_letter c \<noteq> None"
      using nb by (simp add: check_pair_def heading_threshold_def l1 l2)
    then show "check_pair (heading_threshold body_pt d) n (l1, l2) \<noteq> None \<longleftrightarrow>
               (rstrip t1 \<noteq> [] \<and> last (rstrip t1) = 45)
               \<and> (lstrip t2 \<noteq> [] \<and> is_letter (hd (lstrip t2)))"
      unfolding ends_with_hyphen_iff starts_letter_iff t1_def t2_def l1 l2 by simp
  qed
  show ?thesis
    apply (intro conjI)
      apply (rule gen)
     apply (rule gen)
    apply (rule heading_bad_mem)
    done
qed

text \<open>
  The two lines \<^verbatim>\<open>"Naslagw- "\<close> and \<^verbatim>\<open>" erken 1"\<close> at 14pt, with a body size of 10pt, are
  flagged.
\<close>

theorem C8_heading_hyphenation_iff_witness:
  "snd (line_text_and_size example_heading_l1) \<ge> 10 + 1.5
   \<and> snd (line_text_and_size example_heading_l2) \<ge> 10 + 1.5
   \<and> fst (line_text_and_size example_heading_l1) = py ''Naslagw- ''
   \<and> fst (line_text_and_size example_heading_l2) = py '' erken 1''
   \<and> check_pair (heading_threshold 10 1.5) 1 (example_heading_l1, example_heading_l2) \<noteq> None
   \<and> (\<exists>v. v \<in> set (heading_bad 10 1.5 example_heading_doc))"
proof -
  note inst = C8_heading_hyphenation_iff [where ?l1.0 = example_heading_l1
      and ?l2.0 = example_heading_l2 and body_pt = 10 and delta_pt = "1.5" and n = 1
      and doc = example_heading_doc]
  have ts1: "line_text_and_size example_heading_l1 = (py ''Naslagw- '', 14)"
    by (simp add: line_text_and_size_def example_heading_l1_def py_def)
  have ts2: "line_text_and_size example_heading_l2 = (py '' erken 1'', 14)"
    by (simp add: line_text_and_size_def example_heading_l2_def py_def)
  have sz: "snd (line_text_and_size example_heading_l1) \<ge> 10 + 1.5
      \<and> snd (line_text_and_size example_heading_l2) \<ge> 10 + 1.5"
    unfolding ts1 ts2 by simp
  have h: "rstrip (fst (line_text_and_size example_heading_l1)) \<noteq> []
      \<and> last (rstrip (fst (line_text_and_size example_heading_l1))) = 45"
    unfolding ts1 by (simp add: rstrip_def is_space_def py_def cp_def)
  have l: "lstrip (fst (line_text_and_size example_heading_l2)) \<noteq> []
      \<and> is_letter (hd (lstrip (fst (line_text_and_size example_heading_l2))))"
    unfolding ts2 by (simp add: lstrip_def is_space_def is_letter_def py_def cp_def)
  have flagged: "check_pair (heading_threshold 10 1.5) 1 (example_heading_l1, example_heading_l2) \<noteq> None"
    using inst [THEN conjunct1] sz h l by blast
  then obtain v where v: "check_pair (heading_threshold 10 1.5) 1
      (example_heading_l1, example_heading_l2) = Some v" by blast
  have "0 < length (pages example_heading_doc)
      \<and> [example_heading_l1, example_heading_l2] \<in> set (dict_blocks (pages example_heading_doc ! 0))
      \<and> 0 + 1 < length [example_heading_l1, example_heading_l2]
      \<and> check_pair (heading_threshold 10 1.5) (0 + 1)
           ([example_heading_l1, example_heading_l2] ! 0,
            [example_heading_l1, example_heading_l2] ! (0 + 1)) = Some v"
    using v by (simp add: example_heading_doc_def)
  then have "v \<in> set (heading_bad 10 1.5 example_heading_doc)"
    unfolding inst [THEN conjunct2, THEN conjunct2] by blast
  then show ?thesis using sz ts1 ts2 flagged by auto
qed

section \<open>Token file parsers: the claims\<close>

text \<open>
  Both patterns of \<^verbatim>\<open>verify-justify-gaps.py\<close> begin with literals that end in a backslash,
  so on a text without a backslash the search for the \<^verbatim>\<open>:root\<close> block finds nothing and
  the function returns the empty \<^verbatim>\<open>dict\<close>.
\<close>

lemma rx_at_lits_None:
  "c \<notin> set rest \<Longrightarrow> rx_at (map Lit pre @ Lit c # items) pos rest opened groups = None"
proof (induction pre arbitrary: pos rest)
  case Nil
  then show ?case by (cases rest) auto
next
  case (Cons a pre)
  then show ?case by (cases rest) auto
qed

lemma re_search_lits_None:
  assumes "c \<notin> set s"
  shows "re_search (map Lit pre @ Lit c # items) s = None"
proof -
  have "rx_at (map Lit pre @ Lit c # items) k (drop k s) [] [] = None" for k
  proof (rule rx_at_lits_None)
    show "c \<notin> set (drop k s)" using assms set_drop_subset [of k s] by blast
  qed
  then show ?thesis
    unfolding re_search_def by (simp add: first_some_None_iff del: upt_Suc)
qed

lemma jg_root_rx_None: "92 \<notin> set css \<Longrightarrow> re_search jg_root_rx css = None"
  unfolding jg_root_rx_def by (rule re_search_lits_None)

lemma jg_parse_css_vars_no_backslash:
  "92 \<notin> set css \<Longrightarrow> jg_parse_css_vars (Some css) = []"
  by (simp add: jg_parse_css_vars_def parse_css_vars_with_def jg_root_rx_None)

text \<open>The two parsers on the example file, step by step.\<close>

lemma re_search_at_0:
  "rx_at items 0 s [] [] = Some r \<Longrightarrow> re_search items s = Some (snd r)"
  unfolding re_search_def by (simp add: upt_conv_Cons del: upt_Suc)

lemma example_tokens_css_points:
  "example_tokens_css =
     [58, 114, 111, 111, 116, 32, 123, 32, 45, 45, 109, 97, 114, 103, 105, 110, 45, 116, 111,
      112, 58, 32, 50, 48, 109, 109, 59, 32, 125]"
  by (simp add: example_tokens_css_def py_def cp_def)

lemma example_inner_points:
  "py '' --margin-top: 20mm; '' =
     [32, 45, 45, 109, 97, 114, 103, 105, 110, 45, 116, 111, 112, 58, 32, 50, 48, 109, 109, 59, 32]"
  by (simp add: py_def cp_def)

lemma pf_root_rx_example:
  "re_search pf_root_rx example_tokens_css = Some [py '' --margin-top: 20mm; '']"
proof -
  have "rx_at pf_root_rx 0 example_tokens_css [] [] = Some ([], [py '' --margin-top: 20mm; ''])"
    unfolding example_tokens_css_points example_inner_points
    by (simp add: pf_root_rx_def py_def cp_def is_space_def)
  from re_search_at_0 [OF this] show ?thesis by simp
qed

lemma example_inner_splitlines:
  "splitlines (py '' --margin-top: 20mm; '') = [py '' --margin-top: 20mm; '']"
  by (simp add: splitlines_def py_def cp_def is_linebreak_def)

lemma pf_decl_rx_example:
  "re_match pf_decl_rx (py '' --margin-top: 20mm; '') = Some [py ''--margin-top'', py ''20mm'']"
proof -
  have "rx_at pf_decl_rx 0 (py '' --margin-top: 20mm; '') [] []
      = Some ([32], [py ''--margin-top'', py ''20mm''])"
    unfolding example_inner_points
    by (simp add: pf_decl_rx_def py_def cp_def is_space_def is_name_char_def)
  then show ?thesis unfolding re_match_def by simp
qed

lemma example_strip:
  "strip (py ''--margin-top'') = py ''--margin-top'' \<and> strip (py ''20mm'') = py ''20mm''"
  by (simp add: strip_def lstrip_def rstrip_def py_def cp_def is_space_def)

lemma pf_parse_css_vars_example:
  "pf_parse_css_vars (Some example_tokens_css) = [(py ''--margin-top'', py ''20mm'')]"
  unfolding pf_parse_css_vars_def parse_css_vars_with_def
  by (simp add: pf_root_rx_example example_inner_splitlines decl_step_def pf_decl_rx_example
      example_strip)

lemma jg_parse_css_vars_example: "jg_parse_css_vars (Some example_tokens_css) = []"
proof (rule jg_parse_css_vars_no_backslash)
  show "92 \<notin> set example_tokens_css" unfolding example_tokens_css_points by simp
qed

text \<open>
  Claim C3 says that \<^verbatim>\<open>parse_css_vars\<close> of \<^verbatim>\<open>verify-justify-gaps.py\<close> returns the mapping
  that \<^verbatim>\<open>parse_css_vars\<close> of \<^verbatim>\<open>verify-page-fill.py\<close> returns, non-empty on a file with a
  well-formed \<^verbatim>\<open>:root\<close> block.  The code does otherwise: on the file
  \<^verbatim>\<open>:root { --margin-top: 20mm; }\<close> the parser of the Page-Fill gate returns
  \<^verbatim>\<open>{"--margin-top": "20mm"}\<close> and the parser of the Justification-Gap gate, whose patterns
  ask for backslashes in the file, returns \<^verbatim>\<open>{}\<close>.
\<close>

theorem C3_parse_css_vars_diverge:
  "pf_parse_css_vars (Some example_tokens_css) = [(py ''--margin-top'', py ''20mm'')]
   \<and> jg_parse_css_vars (Some example_tokens_css) = []
   \<and> jg_parse_css_vars (Some example_tokens_css) \<noteq> pf_parse_css_vars (Some example_tokens_css)"
  by (simp add: pf_parse_css_vars_example jg_parse_css_vars_example)

section \<open>The exits at the head of \<^verbatim>\<open>main\<close>: the claims\<close>

text \<open>
  Whenever the PDF or the dependency is missing the run ends at the head of \<^verbatim>\<open>main\<close>,
  with the default code of the file's \<^verbatim>\<open>die\<close>: 1 in three of the files, 2 in the other
  three.
\<close>

lemma main_head_missing:
  assumes "\<not> pdf_exists env \<or> \<not> fitz_importable env"
  shows "map_option exit_code (page_fill_main_head env) = Some 1
       \<and> map_option exit_code (column_balance_main_head env) = Some 1
       \<and> map_option exit_code (box_justify_gaps_main_head env) = Some 1
       \<and> map_option exit_code (justify_gaps_main_head env) = Some 2
       \<and> map_option exit_code (bullet_orphan_main_head env) = Some 2
       \<and> map_option exit_code (heading_main_head env) = Some 2"
  using assms
  by (auto simp add: page_fill_main_head_def column_balance_main_head_def
      box_justify_gaps_main_head_def justify_gaps_main_head_def bullet_orphan_main_head_def
      heading_main_head_def main_head_def die_def pf_die_def cb_die_def bj_die_def jg_die_def
      bo_die_def hh_die_def)

lemma main_head_present:
  assumes "pdf_exists env" and "fitz_importable env"
  shows "page_fill_main_head env = None \<and> column_balance_main_head env = None
       \<and> box_justify_gaps_main_head env = None \<and> justify_gaps_main_head env = None
       \<and> bullet_orphan_main_head env = None \<and> heading_main_head env = None"
  using assms
  by (simp add: page_fill_main_head_def column_balance_main_head_def
      box_justify_gaps_main_head_def justify_gaps_main_head_def bullet_orphan_main_head_def
      heading_main_head_def main_head_def)

text \<open>
  Claim C10 has every gate leave with code 1 when the PDF or the dependency is missing.
  Run on a path that does not exist, the Justification-Gap gate writes
  \<^verbatim>\<open>PDF not found\<close> to the error stream and leaves with code 2, and so do the
  Bullet-Orphan-Split and the Heading-Hyphenation gate; the Page-Fill and the
  Column-Balance gate, and \<^verbatim>\<open>verify-box-justify-gaps.py\<close>, leave with code 1 on the same
  input.  Without PyMuPDF the codes are the same.
\<close>

theorem C10_missing_pdf_exit_code:
  "justify_gaps_main_head example_no_pdf = Some \<lparr>exit_code = 2, stderr = [PdfNotFound]\<rparr>
   \<and> bullet_orphan_main_head example_no_pdf = Some \<lparr>exit_code = 2, stderr = [PdfNotFound]\<rparr>
   \<and> heading_main_head example_no_pdf = Some \<lparr>exit_code = 2, stderr = [PdfNotFound]\<rparr>
   \<and> page_fill_main_head example_no_pdf = Some \<lparr>exit_code = 1, stderr = [PdfNotFound]\<rparr>
   \<and> column_balance_main_head example_no_pdf = Some \<lparr>exit_code = 1, stderr = [PdfNotFound]\<rparr>
   \<and> box_justify_gaps_main_head example_no_pdf = Some \<lparr>exit_code = 1, stderr = [PdfNotFound]\<rparr>
   \<and> justify_gaps_main_head example_no_fitz
       = Some \<lparr>exit_code = 2, stderr = [MissingDependency]\<rparr>
   \<and> bullet_orphan_main_head example_no_fitz
       = Some \<lparr>exit_code = 2, stderr = [MissingDependency]\<rparr>
   \<and> heading_main_head example_no_fitz
       = Some \<lparr>exit_code = 2, stderr = [MissingDependency]\<rparr>
   \<and> page_fill_main_head example_no_fitz
       = Some \<lparr>exit_code = 1, stderr = [MissingDependency]\<rparr>
   \<and> column_balance_main_head example_no_fitz
       = Some \<lparr>exit_code = 1, stderr = [MissingDependency]\<rparr>
   \<and> box_justify_gaps_main_head example_no_fitz
       = Some \<lparr>exit_code = 1, stderr = [MissingDependency]\<rparr>"
  by (simp add: page_fill_main_head_def column_balance_main_head_def
      box_justify_gaps_main_head_def justify_gaps_main_head_def bullet_orphan_main_head_def
      heading_main_head_def main_head_def die_def pf_die_def cb_die_def bj_die_def jg_die_def
      bo_die_def hh_die_def example_no_pdf_def example_no_fitz_def)

end
